theory Spec2Isabelle
  imports Complex_Main "HOL-Library.Multiset"
begin

section \<open>Numbers\<close>

text \<open>
  The program computes with JavaScript numbers. Inputs (prices, sizes, balances, configuration
  values) are taken to be finite and are modelled as exact reals. A quotient whose divisor the
  source does not guard can leave the finite numbers; such results are values of \<open>jsnum\<close>,
  which adds the two infinities and NaN with their IEEE 754 rules. A zero divisor is read as
  \<open>+0\<close>.
\<close>

datatype jsnum = Fin real | PosInf | NegInf | NaN

fun js_sign :: "jsnum \<Rightarrow> real" where
  "js_sign (Fin x) = sgn x"
| "js_sign PosInf = 1"
| "js_sign NegInf = -1"
| "js_sign NaN = 0"

definition js_inf :: "real \<Rightarrow> jsnum" where
  "js_inf s = (if s > 0 then PosInf else if s < 0 then NegInf else NaN)"

fun js_finite :: "jsnum \<Rightarrow> bool" where
  "js_finite (Fin x) = True"
| "js_finite PosInf = False"
| "js_finite NegInf = False"
| "js_finite NaN = False"

fun js_neg :: "jsnum \<Rightarrow> jsnum" where
  "js_neg (Fin x) = Fin (- x)"
| "js_neg PosInf = NegInf"
| "js_neg NegInf = PosInf"
| "js_neg NaN = NaN"

fun js_abs :: "jsnum \<Rightarrow> jsnum" where
  "js_abs (Fin x) = Fin \<bar>x\<bar>"
| "js_abs PosInf = PosInf"
| "js_abs NegInf = PosInf"
| "js_abs NaN = NaN"

fun js_add :: "jsnum \<Rightarrow> jsnum \<Rightarrow> jsnum" where
  "js_add (Fin x) (Fin y) = Fin (x + y)"
| "js_add NaN b = NaN"
| "js_add a NaN = NaN"
| "js_add PosInf NegInf = NaN"
| "js_add NegInf PosInf = NaN"
| "js_add PosInf b = PosInf"
| "js_add NegInf b = NegInf"
| "js_add (Fin x) b = b"

definition js_sub :: "jsnum \<Rightarrow> jsnum \<Rightarrow> jsnum" where
  "js_sub a b = js_add a (js_neg b)"

fun js_mul :: "jsnum \<Rightarrow> jsnum \<Rightarrow> jsnum" where
  "js_mul (Fin x) (Fin y) = Fin (x * y)"
| "js_mul NaN b = NaN"
| "js_mul a NaN = NaN"
| "js_mul a b = js_inf (js_sign a * js_sign b)"

fun js_div :: "jsnum \<Rightarrow> jsnum \<Rightarrow> jsnum" where
  "js_div (Fin x) (Fin y) = (if y \<noteq> 0 then Fin (x / y) else js_inf x)"
| "js_div NaN b = NaN"
| "js_div a NaN = NaN"
| "js_div (Fin x) b = Fin 0"
| "js_div a (Fin y) = (if y < 0 then js_neg a else a)"
| "js_div a b = NaN"

text \<open>\<open>a > b\<close> and \<open>a \<le> b\<close>; every comparison with NaN is false.\<close>

fun js_gt :: "jsnum \<Rightarrow> jsnum \<Rightarrow> bool" where
  "js_gt (Fin x) (Fin y) = (x > y)"
| "js_gt NaN b = False"
| "js_gt a NaN = False"
| "js_gt PosInf b = (b \<noteq> PosInf)"
| "js_gt a NegInf = (a \<noteq> NegInf)"
| "js_gt a b = False"

fun js_le :: "jsnum \<Rightarrow> jsnum \<Rightarrow> bool" where
  "js_le (Fin x) (Fin y) = (x \<le> y)"
| "js_le NaN b = False"
| "js_le a NaN = False"
| "js_le NegInf b = True"
| "js_le a PosInf = True"
| "js_le a b = False"

text \<open>\<open>Math.round\<close> rounds half up; \<open>Math.floor\<close> rounds down.\<close>

fun js_round :: "jsnum \<Rightarrow> jsnum" where
  "js_round (Fin x) = Fin (of_int \<lfloor>x + 1 / 2\<rfloor>)"
| "js_round a = a"

fun js_floor :: "jsnum \<Rightarrow> jsnum" where
  "js_floor (Fin x) = Fin (of_int \<lfloor>x\<rfloor>)"
| "js_floor a = a"

text \<open>\<open>xs.slice(0, e)\<close>: a negative end counts from the end of the array.\<close>

definition slice0 :: "'a list \<Rightarrow> int \<Rightarrow> 'a list" where
  "slice0 xs e = (if e < 0 then take (nat (int (length xs) + e)) xs else take (nat e) xs)"

section \<open>Configuration (config.ts)\<close>

datatype QuantityMode = Fixed | Percentage | Tiered

record SpreadConfig =
  spread_min :: real
  spread_max :: real
  depthLevels :: int

record RiskConfig =
  minMarginFraction :: real
  maxExposurePerSide :: real
  maxExposurePerMarket :: real
  maxTotalExposure :: real
  minFreeCollateral :: real

record AutoHedgeConfig =
  autoHedge_enabled :: bool
  imbalanceThreshold :: real

record AssetConfig =
  bias :: real

datatype source = Binance | Bybit | Coinbase

record OracleConfig =
  oracle_enabled :: bool
  sources :: "source list"
  updateInterval :: real
  fallbackToOrderbook :: bool
  cacheTimeout :: real

record BotConfig =
  quantityMode :: QuantityMode
  fixedSize :: real
  percentPerLevel :: real
  tieredMultipliers :: "real list"
  spread :: SpreadConfig
  risk :: RiskConfig
  maxLevels :: int
  autoHedge :: AutoHedgeConfig
  requoteIntervalMs :: real
  inventorySkewEnabled :: bool
  inventorySkewFactor :: real
  requoteThreshold :: real
  assets :: "nat \<rightharpoonup> AssetConfig"
  defaultBias :: real
  oracle_cfg :: OracleConfig

definition USDC_MINT_INDEX :: nat where
  "USDC_MINT_INDEX = 0"

text \<open>The configuration the repository ships (\<open>CONFIG\<close> in config.ts).\<close>

definition CONFIG :: BotConfig where
  "CONFIG =
    \<lparr>quantityMode = Tiered, fixedSize = 0.1, percentPerLevel = 0.01,
     tieredMultipliers = [0.5, 0.3, 0.2],
     spread = \<lparr>spread_min = 0.0015, spread_max = 0.0125, depthLevels = 5\<rparr>,
     risk = \<lparr>minMarginFraction = 0.18, maxExposurePerSide = 0.25, maxExposurePerMarket = 0.30,
             maxTotalExposure = 0.60, minFreeCollateral = 100\<rparr>,
     maxLevels = 3,
     autoHedge = \<lparr>autoHedge_enabled = False, imbalanceThreshold = 0.35\<rparr>,
     requoteIntervalMs = 5000, inventorySkewEnabled = True, inventorySkewFactor = 0.002,
     requoteThreshold = 0.0002, assets = Map.empty, defaultBias = 0,
     oracle_cfg = \<lparr>oracle_enabled = True, sources = [Binance, Bybit], updateInterval = 5000,
                   fallbackToOrderbook = True, cacheTimeout = 10000\<rparr>\<rparr>"

section \<open>Venue types (nord-ts)\<close>

datatype Side = Bid | Ask

datatype FillMode = Limit | Market | ImmediateOrCancel | FillOrKill

record Balance =
  mint :: string
  amount :: real
  availableAmount :: real

record Position =
  pos_marketId :: nat
  pos_size :: real
  entryPrice :: real
  unrealizedPnl :: real

record Order =
  orderId :: string
  ord_marketId :: nat
  ord_side :: Side
  ord_price :: real
  ord_size :: real
  ord_fillMode :: FillMode
  ord_isReduceOnly :: bool
  ord_timestamp :: int

record OrderbookLevel =
  lvl_price :: real
  lvl_size :: real

record Orderbook =
  ob_marketId :: nat
  bids :: "OrderbookLevel list"
  asks :: "OrderbookLevel list"
  ob_timestamp :: int

record Market =
  mk_marketId :: nat
  symbol :: string
  baseToken :: string
  quoteToken :: string
  tickSize :: real
  minSize :: real
  maxLeverage :: real

record PlaceOrderParams =
  po_marketId :: nat
  po_side :: Side
  po_fillMode :: FillMode
  po_isReduceOnly :: bool
  po_size :: jsnum
  po_price :: "jsnum option"

text \<open>
  The account as the venue last reported it. \<open>positions\<close> and \<open>orders\<close> are objects whose
  entries the code enumerates, so they are association lists; \<open>getLeverage\<close> is the answer
  of the venue to that call, or the message of the error it throws.
\<close>

record NordUser =
  balances :: "nat \<rightharpoonup> Balance"
  positions :: "(nat \<times> Position) list"
  orders :: "(string \<times> Order) list"
  getLeverage :: "string + real"

section \<open>SpreadCalculator\<close>

record SpreadCalculation =
  sc_spread :: real
  sc_imbalance :: real
  sc_bidDepth :: real
  sc_askDepth :: real

definition sumDepth :: "OrderbookLevel list \<Rightarrow> real" where
  "sumDepth levels = foldl (\<lambda>sum level. sum + lvl_size level) 0 levels"

definition clamp :: "real \<Rightarrow> real \<Rightarrow> real \<Rightarrow> real" where
  "clamp v mn mx = max mn (min mx v)"

definition computeDynamicSpread :: "BotConfig \<Rightarrow> Orderbook \<Rightarrow> SpreadCalculation" where
  "computeDynamicSpread cfg orderbook =
    (let levels = min (depthLevels (spread cfg))
                      (min (int (length (bids orderbook))) (int (length (asks orderbook))));
         bidDepth = sumDepth (slice0 (bids orderbook) levels);
         askDepth = sumDepth (slice0 (asks orderbook) levels);
         totalDepth = bidDepth + askDepth;
         imbalance = (if totalDepth > 0 then (bidDepth - askDepth) / totalDepth else 0);
         imbalanceFactor = \<bar>imbalance\<bar>;
         spr = spread_min (spread cfg)
               + imbalanceFactor * (spread_max (spread cfg) - spread_min (spread cfg));
         clampedSpread = clamp spr (spread_min (spread cfg)) (spread_max (spread cfg))
     in \<lparr>sc_spread = clampedSpread, sc_imbalance = imbalance,
         sc_bidDepth = bidDepth, sc_askDepth = askDepth\<rparr>)"

definition getMidPrice :: "Orderbook \<Rightarrow> real option" where
  "getMidPrice orderbook =
    (if length (bids orderbook) = 0 \<or> length (asks orderbook) = 0 then None
     else Some ((lvl_price (bids orderbook ! 0) + lvl_price (asks orderbook ! 0)) / 2))"

text \<open>\<open>!midPrice\<close> holds for \<open>null\<close> and for the number zero.\<close>

definition isOrderbookHealthy :: "Orderbook \<Rightarrow> bool" where
  "isOrderbookHealthy orderbook =
    (if length (bids orderbook) < 2 \<or> length (asks orderbook) < 2 then False
     else case getMidPrice orderbook of
            None \<Rightarrow> False
          | Some midPrice \<Rightarrow>
              if midPrice = 0 then False
              else let bestBid = lvl_price (bids orderbook ! 0);
                       bestAsk = lvl_price (asks orderbook ! 0);
                       currentSpread = (bestAsk - bestBid) / midPrice
                   in if currentSpread > 0.05 then False else True)"

section \<open>SizingCalculator\<close>

record LevelSize =
  level :: nat
  ls_size :: real

text \<open>\<open>balance?.availableAmount || 0\<close> and \<open>balance?.amount || 0\<close>.\<close>

definition freeCollateralOf :: "NordUser \<Rightarrow> real" where
  "freeCollateralOf user =
    (case balances user USDC_MINT_INDEX of None \<Rightarrow> 0 | Some balance \<Rightarrow> availableAmount balance)"

definition totalCollateralOf :: "NordUser \<Rightarrow> real" where
  "totalCollateralOf user =
    (case balances user USDC_MINT_INDEX of None \<Rightarrow> 0 | Some balance \<Rightarrow> amount balance)"

definition calculateFixedSizes :: "BotConfig \<Rightarrow> LevelSize list" where
  "calculateFixedSizes cfg =
    map (\<lambda>i. \<lparr>level = i, ls_size = fixedSize cfg\<rparr>) [0 ..< nat (maxLevels cfg)]"

definition calculatePercentageSizes :: "BotConfig \<Rightarrow> real \<Rightarrow> LevelSize list" where
  "calculatePercentageSizes cfg freeCollateral =
    (let sizePerLevel = freeCollateral * percentPerLevel cfg
     in map (\<lambda>i. \<lparr>level = i, ls_size = sizePerLevel\<rparr>) [0 ..< nat (maxLevels cfg)])"

definition calculateTieredSizes :: "BotConfig \<Rightarrow> real \<Rightarrow> LevelSize list" where
  "calculateTieredSizes cfg freeCollateral =
    (let maxPosition = freeCollateral * maxExposurePerMarket (risk cfg)
     in map (\<lambda>i. let multiplier = (if i < length (tieredMultipliers cfg)
                                     then tieredMultipliers cfg ! i else 0)
                  in \<lparr>level = i, ls_size = maxPosition * multiplier\<rparr>)
            [0 ..< nat (maxLevels cfg)])"

definition calculateLevelSizes :: "BotConfig \<Rightarrow> NordUser \<Rightarrow> nat \<Rightarrow> LevelSize list" where
  "calculateLevelSizes cfg user marketId =
    (let freeCollateral = freeCollateralOf user
     in if freeCollateral = 0 then []
        else case quantityMode cfg of
               Fixed \<Rightarrow> calculateFixedSizes cfg
             | Percentage \<Rightarrow> calculatePercentageSizes cfg freeCollateral
             | Tiered \<Rightarrow> calculateTieredSizes cfg freeCollateral)"

definition roundSize :: "real \<Rightarrow> real \<Rightarrow> real \<Rightarrow> jsnum" where
  "roundSize sz minSz stepSize =
    (if sz < minSz then Fin minSz
     else let steps = js_floor (js_div (Fin sz) (Fin stepSize))
          in js_mul steps (Fin stepSize))"

text \<open>The call sites leave \<open>stepSize\<close> at its default.\<close>

definition defaultStepSize :: real where
  "defaultStepSize = 0.01"

definition getTotalSize :: "LevelSize list \<Rightarrow> real" where
  "getTotalSize levelSizes = foldl (\<lambda>sum ls. sum + ls_size ls) 0 levelSizes"

definition validateSizes :: "BotConfig \<Rightarrow> LevelSize list \<Rightarrow> real \<Rightarrow> real \<Rightarrow> bool" where
  "validateSizes cfg levelSizes freeCollateral midPrice =
    (let totalSize = getTotalSize levelSizes;
         totalValue = totalSize * midPrice;
         maxAllowed = freeCollateral * maxExposurePerSide (risk cfg)
     in if totalValue > maxAllowed then False else True)"

section \<open>PriceOracle\<close>

record ExchangePrice =
  ep_bid :: real
  ep_ask :: real
  ep_mid :: real
  ep_spread :: jsnum
  volume24h :: real
  ep_timestamp :: int
  ep_source :: string

text \<open>\<open>Array.prototype.join\<close>.\<close>

fun join :: "string \<Rightarrow> string list \<Rightarrow> string" where
  "join sep [] = []"
| "join sep [x] = x"
| "join sep (x # y # ys) = x @ sep @ join sep (y # ys)"

text \<open>
  \<open>aggregatePrices\<close> is private and only called with at least one price; on the empty array
  its \<open>bid\<close>, \<open>ask\<close> and \<open>mid\<close> would be \<open>undefined\<close>, which is \<open>None\<close> here. The second
  argument is the reading of the clock that stamps the result.
\<close>

definition aggregatePrices :: "ExchangePrice list \<Rightarrow> int \<Rightarrow> ExchangePrice option" where
  "aggregatePrices prices now =
    (if length prices = 0 then None
     else let midList = sort (map ep_mid prices);
              bidList = sort (map ep_bid prices);
              askList = sort (map ep_ask prices);
              medianIndex = length prices div 2;
              bid = bidList ! medianIndex;
              ask = askList ! medianIndex;
              mid = midList ! medianIndex;
              totalVolume = foldl (\<lambda>sum p. sum + volume24h p) 0 prices;
              avgVolume = totalVolume / real (length prices)
          in Some \<lparr>ep_bid = bid, ep_ask = ask, ep_mid = mid,
                   ep_spread = js_div (Fin (ask - bid)) (Fin mid),
                   volume24h = avgVolume, ep_timestamp = now,
                   ep_source = ''aggregated('' @ join '','' (map ep_source prices) @ '')''\<rparr>)"

text \<open>
  \<open>getPrice\<close> reads and writes the cache and queries the sources. \<open>fetch\<close> is what
  \<open>fetchFromSource\<close> resolves to for a symbol and a source (\<open>None\<close> for \<open>null\<close>, which is
  also what a failed or timed-out request becomes). The result is the returned price, the
  cache afterwards and the sources queried, in order.
\<close>

definition getPrice ::
  "OracleConfig \<Rightarrow> (string \<rightharpoonup> ExchangePrice) \<Rightarrow> (string \<Rightarrow> source \<Rightarrow> ExchangePrice option)
   \<Rightarrow> int \<Rightarrow> int \<Rightarrow> string
   \<Rightarrow> ExchangePrice option \<times> (string \<rightharpoonup> ExchangePrice) \<times> source list" where
  "getPrice ocfg cache fetch now nowAgg sy =
    (let cached = cache sy;
         hit = (case cached of None \<Rightarrow> False
                | Some c \<Rightarrow> real_of_int (now - ep_timestamp c) < cacheTimeout ocfg)
     in if hit then (cached, cache, [])
        else let prices = List.map_filter (fetch sy) (sources ocfg)
             in if length prices = 0 then (cached, cache, sources ocfg)
                else case aggregatePrices prices nowAgg of
                       None \<Rightarrow> (None, cache, sources ocfg)
                     | Some aggregatedPrice \<Rightarrow>
                         (Some aggregatedPrice, cache(sy \<mapsto> aggregatedPrice), sources ocfg))"

definition getPriceAge :: "(string \<rightharpoonup> ExchangePrice) \<Rightarrow> int \<Rightarrow> string \<Rightarrow> jsnum" where
  "getPriceAge cache now sy =
    (case cache sy of None \<Rightarrow> PosInf | Some c \<Rightarrow> Fin (real_of_int (now - ep_timestamp c)))"

definition isPriceFresh :: "OracleConfig \<Rightarrow> (string \<rightharpoonup> ExchangePrice) \<Rightarrow> int \<Rightarrow> string \<Rightarrow> bool" where
  "isPriceFresh ocfg cache now sy = js_gt (Fin (cacheTimeout ocfg)) (getPriceAge cache now sy)"

section \<open>RiskManager\<close>

datatype detail = DNum jsnum | DStr string

record RiskCheckResult =
  canTrade :: bool
  reason :: "string option"
  details :: "(string \<times> detail) list option"

definition allowTrade :: RiskCheckResult where
  "allowTrade = \<lparr>canTrade = True, reason = None, details = None\<rparr>"

text \<open>\<open>user.positions[marketId]\<close>.\<close>

definition positionOf :: "NordUser \<Rightarrow> nat \<Rightarrow> Position option" where
  "positionOf user marketId = map_of (positions user) marketId"

definition checkMarginFraction :: "BotConfig \<Rightarrow> real \<Rightarrow> RiskCheckResult" where
  "checkMarginFraction cfg marginFraction =
    (if marginFraction < minMarginFraction (risk cfg)
     then \<lparr>canTrade = False, reason = Some ''Margin fraction too low'',
           details = Some [(''marginFraction'', DNum (Fin marginFraction)),
                           (''required'', DNum (Fin (minMarginFraction (risk cfg))))]\<rparr>
     else allowTrade)"

definition checkFreeCollateral :: "BotConfig \<Rightarrow> NordUser \<Rightarrow> RiskCheckResult" where
  "checkFreeCollateral cfg user =
    (case balances user USDC_MINT_INDEX of
       None \<Rightarrow> \<lparr>canTrade = False, reason = Some ''No USDC balance found'', details = None\<rparr>
     | Some balance \<Rightarrow>
         let freeCollateral = availableAmount balance
         in if freeCollateral < minFreeCollateral (risk cfg)
            then \<lparr>canTrade = False, reason = Some ''Insufficient free collateral'',
                  details = Some [(''freeCollateral'', DNum (Fin freeCollateral)),
                                  (''required'', DNum (Fin (minFreeCollateral (risk cfg))))]\<rparr>
            else allowTrade)"

definition checkMarketExposure :: "BotConfig \<Rightarrow> NordUser \<Rightarrow> nat \<Rightarrow> RiskCheckResult" where
  "checkMarketExposure cfg user marketId =
    (case positionOf user marketId of
       None \<Rightarrow> allowTrade
     | Some position \<Rightarrow>
         let freeCollateral = freeCollateralOf user;
             maxPosition = freeCollateral * maxExposurePerMarket (risk cfg);
             currentExposure = \<bar>pos_size position * entryPrice position\<bar>
         in if currentExposure > maxPosition
            then \<lparr>canTrade = False, reason = Some ''Market exposure limit exceeded'',
                  details = Some [(''marketId'', DNum (Fin (real marketId))),
                                  (''currentExposure'', DNum (Fin currentExposure)),
                                  (''maxPosition'', DNum (Fin maxPosition)),
                                  (''positionSize'', DNum (Fin (pos_size position)))]\<rparr>
            else allowTrade)"

definition totalExposureOf :: "NordUser \<Rightarrow> real" where
  "totalExposureOf user =
    foldl (\<lambda>totalExposure position. totalExposure + \<bar>pos_size position * entryPrice position\<bar>)
          0 (map snd (positions user))"

definition exposureRatioOf :: "NordUser \<Rightarrow> jsnum" where
  "exposureRatioOf user = js_div (Fin (totalExposureOf user)) (Fin (totalCollateralOf user))"

definition checkTotalExposure :: "BotConfig \<Rightarrow> NordUser \<Rightarrow> RiskCheckResult" where
  "checkTotalExposure cfg user =
    (let totalCollateral = totalCollateralOf user;
         totalExposure = totalExposureOf user;
         exposureRatio = exposureRatioOf user
     in if js_gt exposureRatio (Fin (maxTotalExposure (risk cfg)))
        then \<lparr>canTrade = False, reason = Some ''Total exposure limit exceeded'',
              details = Some [(''totalExposure'', DNum (Fin totalExposure)),
                              (''totalCollateral'', DNum (Fin totalCollateral)),
                              (''exposureRatio'', DNum exposureRatio),
                              (''maxAllowed'', DNum (Fin (maxTotalExposure (risk cfg))))]\<rparr>
        else allowTrade)"

text \<open>
  \<open>canQuote\<close> first refreshes the account: \<open>fetched\<close> is the outcome of \<open>fetchInfo\<close>, the
  refreshed account or the message of the error thrown. The margin fraction is the answer to
  \<open>getLeverage\<close>. Any throw ends in the catch clause.
\<close>

definition riskCheckError :: "string \<Rightarrow> RiskCheckResult" where
  "riskCheckError msg =
    \<lparr>canTrade = False, reason = Some ''Risk check error'', details = Some [(''error'', DStr msg)]\<rparr>"

definition canQuote ::
  "BotConfig \<Rightarrow> NordUser \<Rightarrow> string + NordUser \<Rightarrow> nat \<Rightarrow> RiskCheckResult \<times> NordUser" where
  "canQuote cfg user fetched marketId =
    (case fetched of
       Inl msg \<Rightarrow> (riskCheckError msg, user)
     | Inr u \<Rightarrow>
        (case getLeverage u of
           Inl msg \<Rightarrow> (riskCheckError msg, u)
         | Inr marginFraction \<Rightarrow>
             let marginCheck = checkMarginFraction cfg marginFraction
             in if \<not> canTrade marginCheck then (marginCheck, u)
                else let collateralCheck = checkFreeCollateral cfg u
                     in if \<not> canTrade collateralCheck then (collateralCheck, u)
                        else let marketCheck = checkMarketExposure cfg u marketId
                             in if \<not> canTrade marketCheck then (marketCheck, u)
                                else let totalCheck = checkTotalExposure cfg u
                                     in if \<not> canTrade totalCheck then (totalCheck, u)
                                        else (allowTrade, u)))"

definition getPositionRatio :: "BotConfig \<Rightarrow> NordUser \<Rightarrow> nat \<Rightarrow> real \<Rightarrow> jsnum" where
  "getPositionRatio cfg user marketId midPrice =
    (case positionOf user marketId of
       None \<Rightarrow> Fin 0
     | Some position \<Rightarrow>
         if pos_size position = 0 then Fin 0
         else let freeCollateral = freeCollateralOf user
              in if freeCollateral = 0 then Fin 0
                 else let positionValue = pos_size position * midPrice;
                          maxPositionValue = freeCollateral * maxExposurePerMarket (risk cfg)
                      in js_div (Fin positionValue) (Fin maxPositionValue))"

section \<open>InventoryManager\<close>

record SkewedPrice =
  bidPrice :: jsnum
  askPrice :: jsnum
  skewFactor :: jsnum
  sk_bias :: real
  positionRatio :: jsnum

text \<open>
  \<open>CONFIG.assets[marketId]?.bias || CONFIG.defaultBias\<close>: the right operand is taken when the
  left one is \<open>undefined\<close> or zero.
\<close>

definition applyInventorySkew :: "BotConfig \<Rightarrow> NordUser \<Rightarrow> nat \<Rightarrow> real \<Rightarrow> real \<Rightarrow> SkewedPrice" where
  "applyInventorySkew cfg user marketId basePrice spr =
    (let b = (case assets cfg marketId of
                None \<Rightarrow> defaultBias cfg
              | Some asset \<Rightarrow> if bias asset = 0 then defaultBias cfg else bias asset)
     in if \<not> inventorySkewEnabled cfg
        then \<lparr>bidPrice = Fin (basePrice * (1 - spr / 2 + b)),
              askPrice = Fin (basePrice * (1 + spr / 2 + b)),
              skewFactor = Fin 0, sk_bias = b, positionRatio = Fin 0\<rparr>
        else let ratio = getPositionRatio cfg user marketId basePrice;
                 skew = (if js_gt (js_abs ratio) (Fin 0.05)
                         then js_mul ratio (Fin (inventorySkewFactor cfg)) else Fin 0);
                 totalAdjustment = js_add skew (Fin b);
                 adjustedBasePrice = js_mul (Fin basePrice) (js_add (Fin 1) totalAdjustment)
             in \<lparr>bidPrice = js_mul adjustedBasePrice (Fin (1 - spr / 2)),
                 askPrice = js_mul adjustedBasePrice (Fin (1 + spr / 2)),
                 skewFactor = skew, sk_bias = b, positionRatio = ratio\<rparr>)"

definition needsHedge :: "BotConfig \<Rightarrow> NordUser \<Rightarrow> nat \<Rightarrow> real \<Rightarrow> bool" where
  "needsHedge cfg user marketId midPrice =
    (if \<not> autoHedge_enabled (autoHedge cfg) then False
     else js_gt (js_abs (getPositionRatio cfg user marketId midPrice))
                (Fin (imbalanceThreshold (autoHedge cfg))))"

section \<open>BacktestEngine\<close>

record HistoricalBar =
  bar_timestamp :: int
  bar_open :: real
  bar_high :: real
  bar_low :: real
  bar_close :: real
  bar_volume :: real
  bar_bidDepth :: real
  bar_askDepth :: real

datatype BacktestSide = BtBid | BtAsk

record BacktestOrder =
  bo_id :: string
  bo_side :: BacktestSide
  bo_price :: real
  bo_size :: real
  bo_timestamp :: int
  filled :: bool
  fillPrice :: "real option"
  fillTimestamp :: "int option"

record BacktestPosition =
  bp_size :: real
  bp_entryPrice :: real
  realizedPnl :: real
  bp_unrealizedPnl :: real

record BacktestEngine =
  bt_orders :: "BacktestOrder list"
  position :: BacktestPosition
  balance :: real
  equity :: "real list"
  timestamps :: "int list"

definition newBacktestEngine :: "real \<Rightarrow> BacktestEngine" where
  "newBacktestEngine initialBalance =
    \<lparr>bt_orders = [],
     position = \<lparr>bp_size = 0, bp_entryPrice = 0, realizedPnl = 0, bp_unrealizedPnl = 0\<rparr>,
     balance = initialBalance, equity = [initialBalance], timestamps = []\<rparr>"

definition calculateFillProbability :: "BacktestOrder \<Rightarrow> HistoricalBar \<Rightarrow> real" where
  "calculateFillProbability order bar =
    (if bo_side order = BtBid
     then (if bar_low bar \<le> bo_price order then 0.8
           else if bar_close bar < bo_price order then 0.3
           else 0.05)
     else (if bar_high bar \<ge> bo_price order then 0.8
           else if bar_close bar > bo_price order then 0.3
           else 0.05))"

text \<open>
  \<open>fillOrder\<close> marks the order and updates position and balance; it returns the order as it is
  afterwards and the engine. The order list of the engine is rewritten by the caller.
\<close>

definition fillOrder ::
  "BacktestEngine \<Rightarrow> BacktestOrder \<Rightarrow> HistoricalBar \<Rightarrow> BacktestOrder \<times> BacktestEngine" where
  "fillOrder eng order bar =
    (let order' = order\<lparr>filled := True, fillPrice := Some (bo_price order),
                        fillTimestamp := Some (bar_timestamp bar)\<rparr>;
         sizeChange = (if bo_side order = BtBid then bo_size order else - bo_size order);
         oldSize = bp_size (position eng);
         newSize = oldSize + sizeChange;
         closing = ((oldSize > 0 \<and> sizeChange < 0) \<or> (oldSize < 0 \<and> sizeChange > 0));
         closedSize = min \<bar>oldSize\<bar> \<bar>sizeChange\<bar>;
         pnl = (if oldSize > 0
                then closedSize * (bo_price order - bp_entryPrice (position eng))
                else closedSize * (bp_entryPrice (position eng) - bo_price order));
         pos1 = (if closing
                 then (position eng)\<lparr>realizedPnl := realizedPnl (position eng) + pnl\<rparr>
                 else position eng);
         bal1 = (if closing then balance eng + pnl else balance eng);
         pos2 = (if newSize = 0 then pos1\<lparr>bp_size := 0, bp_entryPrice := 0\<rparr>
                 else if sgn newSize \<noteq> sgn oldSize
                 then pos1\<lparr>bp_size := newSize, bp_entryPrice := bo_price order\<rparr>
                 else if \<bar>newSize\<bar> > \<bar>oldSize\<bar>
                 then pos1\<lparr>bp_entryPrice :=
                              (oldSize * bp_entryPrice pos1 + sizeChange * bo_price order) / newSize,
                            bp_size := newSize\<rparr>
                 else pos1\<lparr>bp_size := newSize\<rparr>)
     in (order', eng\<lparr>position := pos2, balance := bal1\<rparr>))"

text \<open>
  \<open>checkFills\<close> walks the orders in sequence; each unfilled order consumes one draw of
  \<open>Math.random()\<close>, taken from the list \<open>draws\<close>. Should the draws run out, the remaining
  unfilled orders stay unfilled.
\<close>

fun fillSweep ::
  "BacktestEngine \<Rightarrow> HistoricalBar \<Rightarrow> BacktestOrder list \<Rightarrow> real list
   \<Rightarrow> BacktestOrder list \<times> BacktestEngine" where
  "fillSweep eng bar [] draws = ([], eng)"
| "fillSweep eng bar (order # rest) draws =
    (if filled order
     then (let (rest', eng') = fillSweep eng bar rest draws in (order # rest', eng'))
     else case draws of
            [] \<Rightarrow> (let (rest', eng') = fillSweep eng bar rest [] in (order # rest', eng'))
          | u # us \<Rightarrow>
              if u < calculateFillProbability order bar
              then (let (order', eng1) = fillOrder eng order bar;
                        (rest', eng') = fillSweep eng1 bar rest us
                    in (order' # rest', eng'))
              else (let (rest', eng') = fillSweep eng bar rest us in (order # rest', eng')))"

definition checkFills :: "BacktestEngine \<Rightarrow> HistoricalBar \<Rightarrow> real list \<Rightarrow> BacktestEngine" where
  "checkFills eng bar draws =
    (let (orders', eng') = fillSweep eng bar (bt_orders eng) draws
     in eng'\<lparr>bt_orders := orders'\<rparr>)"

section \<open>MarketMakerLive\<close>

record QuoteLevel =
  ql_price :: jsnum
  ql_size :: real

record MarketQuotes =
  mq_marketId :: nat
  mq_bids :: "QuoteLevel list"
  mq_asks :: "QuoteLevel list"
  mq_timestamp :: int

record LastQuotePrices =
  lq_bid :: jsnum
  lq_ask :: jsnum
  lq_timestamp :: int

record MarketMakerLive =
  user :: NordUser
  activeMarkets :: "nat \<rightharpoonup> Market"
  currentQuotes :: "nat \<rightharpoonup> MarketQuotes"
  lastQuotePrices :: "nat \<rightharpoonup> LastQuotePrices"
  priceCache :: "string \<rightharpoonup> ExchangePrice"
  isRunning :: bool

text \<open>
  What the outside world answers during one pass of the handler: the sources of the oracle,
  the venue's \<open>fetchInfo\<close> (the refreshed account, or the message of the error thrown), and
  the readings of \<open>Date.now()\<close> at the places that read the clock.
\<close>

record Env =
  fetchFromSource :: "string \<Rightarrow> source \<Rightarrow> ExchangePrice option"
  fetchInfo :: "string + NordUser"
  now_getPrice :: int
  now_aggregate :: int
  now_isFresh :: int
  now_lastQuote :: int
  now_currentQuotes :: int

text \<open>
  The calls to the outside and the two writes to the per-market maps, in the order in which
  a pass performs them. An order that the venue rejects is logged and the ladder goes on, so
  \<open>PlaceOrder\<close> and \<open>CancelOrder\<close> record the calls made.
\<close>

datatype effect =
    FetchSource string source
  | FetchInfo
  | CancelOrder string
  | PlaceOrder PlaceOrderParams
  | SetLastQuotePrices nat LastQuotePrices
  | SetCurrentQuotes nat MarketQuotes
  | GetLeverage

text \<open>\<open>s.replace(pat, rep)\<close> with a string pattern replaces the first occurrence.\<close>

fun replaceFirst :: "string \<Rightarrow> string \<Rightarrow> string \<Rightarrow> string" where
  "replaceFirst pat rep [] = (if pat = [] then rep else [])"
| "replaceFirst pat rep (c # cs) =
    (if take (length pat) (c # cs) = pat then rep @ drop (length pat) (c # cs)
     else c # replaceFirst pat rep cs)"

definition getMidPriceLive ::
  "BotConfig \<Rightarrow> Env \<Rightarrow> MarketMakerLive \<Rightarrow> nat \<Rightarrow> Orderbook
   \<Rightarrow> real option \<times> MarketMakerLive \<times> effect list" where
  "getMidPriceLive cfg env st marketId orderbook =
    (case activeMarkets st marketId of
       None \<Rightarrow> (None, st, [])
     | Some market \<Rightarrow>
         if oracle_enabled (oracle_cfg cfg)
         then let sy = replaceFirst ''-PERP'' '''' (symbol market);
                  (cexPrice, cache', queried) =
                     getPrice (oracle_cfg cfg) (priceCache st) (fetchFromSource env)
                              (now_getPrice env) (now_aggregate env) sy;
                  st' = st\<lparr>priceCache := cache'\<rparr>;
                  effs = map (FetchSource sy) queried;
                  usable = (case cexPrice of None \<Rightarrow> False
                            | Some p \<Rightarrow> isPriceFresh (oracle_cfg cfg) cache' (now_isFresh env) sy)
              in if usable then (map_option ep_mid cexPrice, st', effs)
                 else if \<not> fallbackToOrderbook (oracle_cfg cfg) then (None, st', effs)
                 else (getMidPrice orderbook, st', effs)
         else (getMidPrice orderbook, st, []))"

definition shouldRequote :: "BotConfig \<Rightarrow> MarketMakerLive \<Rightarrow> nat \<Rightarrow> jsnum \<Rightarrow> jsnum \<Rightarrow> bool" where
  "shouldRequote cfg st marketId newBidPrice newAskPrice =
    (case lastQuotePrices st marketId of
       None \<Rightarrow> True
     | Some lastPrices \<Rightarrow>
         let bidChange = js_div (js_abs (js_sub newBidPrice (lq_bid lastPrices))) (lq_bid lastPrices);
             askChange = js_div (js_abs (js_sub newAskPrice (lq_ask lastPrices))) (lq_ask lastPrices)
         in js_gt bidChange (Fin (requoteThreshold cfg))
            \<or> js_gt askChange (Fin (requoteThreshold cfg)))"

definition generateQuoteLevels ::
  "BotConfig \<Rightarrow> jsnum \<Rightarrow> jsnum \<Rightarrow> real \<Rightarrow> LevelSize list \<Rightarrow> QuoteLevel list \<times> QuoteLevel list" where
  "generateQuoteLevels cfg baseBidPrice baseAskPrice spr levelSizes =
    (let n = nat (min (maxLevels cfg) (int (length levelSizes)));
         spacing = (\<lambda>i. spr * (real i + 1) * 0.5)
     in (map (\<lambda>i. \<lparr>ql_price = js_mul baseBidPrice (Fin (1 - spacing i)),
                    ql_size = ls_size (levelSizes ! i)\<rparr>) [0 ..< n],
         map (\<lambda>i. \<lparr>ql_price = js_mul baseAskPrice (Fin (1 + spacing i)),
                    ql_size = ls_size (levelSizes ! i)\<rparr>) [0 ..< n]))"

definition roundPrice :: "jsnum \<Rightarrow> real \<Rightarrow> jsnum" where
  "roundPrice p tick = js_mul (js_round (js_div p (Fin tick))) (Fin tick)"

definition placeQuotes ::
  "MarketMakerLive \<Rightarrow> nat \<Rightarrow> QuoteLevel list \<times> QuoteLevel list \<Rightarrow> effect list" where
  "placeQuotes st marketId quotes =
    (case activeMarkets st marketId of
       None \<Rightarrow> []
     | Some market \<Rightarrow>
         map (\<lambda>q. PlaceOrder
                \<lparr>po_marketId = marketId, po_side = Bid, po_fillMode = Limit,
                 po_isReduceOnly = False,
                 po_size = roundSize (ql_size q) (minSize market) defaultStepSize,
                 po_price = Some (roundPrice (ql_price q) (tickSize market))\<rparr>) (fst quotes)
         @ map (\<lambda>q. PlaceOrder
                \<lparr>po_marketId = marketId, po_side = Ask, po_fillMode = Limit,
                 po_isReduceOnly = False,
                 po_size = roundSize (ql_size q) (minSize market) defaultStepSize,
                 po_price = Some (roundPrice (ql_price q) (tickSize market))\<rparr>) (snd quotes))"

definition cancelMarketOrders ::
  "Env \<Rightarrow> MarketMakerLive \<Rightarrow> nat \<Rightarrow> MarketMakerLive \<times> effect list" where
  "cancelMarketOrders env st marketId =
    (case fetchInfo env of
       Inl msg \<Rightarrow> (st, [FetchInfo])
     | Inr u \<Rightarrow>
         let marketOrders = filter (\<lambda>(oid, order). ord_marketId order = marketId) (orders u)
         in (st\<lparr>user := u\<rparr>, FetchInfo # map (\<lambda>(oid, order). CancelOrder oid) marketOrders))"

definition requote ::
  "BotConfig \<Rightarrow> Env \<Rightarrow> MarketMakerLive \<Rightarrow> nat \<Rightarrow> Orderbook \<Rightarrow> MarketMakerLive \<times> effect list" where
  "requote cfg env st marketId orderbook =
    (let (midPriceOpt, st1, e1) = getMidPriceLive cfg env st marketId orderbook
     in case midPriceOpt of
          None \<Rightarrow> (st1, e1)
        | Some midPrice \<Rightarrow>
            if midPrice = 0 then (st1, e1)
            else let spr = sc_spread (computeDynamicSpread cfg orderbook);
                     sk = applyInventorySkew cfg (user st1) marketId midPrice spr
                 in if \<not> shouldRequote cfg st1 marketId (bidPrice sk) (askPrice sk) then (st1, e1)
                    else let lq = \<lparr>lq_bid = bidPrice sk, lq_ask = askPrice sk,
                                   lq_timestamp = now_lastQuote env\<rparr>;
                             st2 = st1\<lparr>lastQuotePrices := (lastQuotePrices st1)(marketId \<mapsto> lq)\<rparr>;
                             e2 = e1 @ [SetLastQuotePrices marketId lq];
                             (st3, e3) = cancelMarketOrders env st2 marketId;
                             levelSizes = calculateLevelSizes cfg (user st3) marketId
                         in if length levelSizes = 0 then (st3, e2 @ e3)
                            else if \<not> validateSizes cfg levelSizes (freeCollateralOf (user st3)) midPrice
                            then (st3, e2 @ e3)
                            else let quotes = generateQuoteLevels cfg (bidPrice sk) (askPrice sk)
                                                spr levelSizes;
                                     e4 = placeQuotes st3 marketId quotes;
                                     mq = \<lparr>mq_marketId = marketId, mq_bids = fst quotes,
                                           mq_asks = snd quotes,
                                           mq_timestamp = now_currentQuotes env\<rparr>;
                                     st4 = st3\<lparr>currentQuotes := (currentQuotes st3)(marketId \<mapsto> mq)\<rparr>
                                 in (st4, e2 @ e3 @ e4 @ [SetCurrentQuotes marketId mq]))"

text \<open>The orders a pass sends to the venue.\<close>

definition placedOrders :: "effect list \<Rightarrow> PlaceOrderParams list" where
  "placedOrders effs = List.map_filter (\<lambda>e. case e of PlaceOrder p \<Rightarrow> Some p | _ \<Rightarrow> None) effs"

section \<open>HedgingEngine and the orderbook handler\<close>

text \<open>
  \<open>executeHedge\<close> sends one reduce-only market order against the position, without a price;
  a failure of the venue is logged and swallowed.
\<close>

definition executeHedge :: "BotConfig \<Rightarrow> NordUser \<Rightarrow> nat \<Rightarrow> real \<Rightarrow> effect list" where
  "executeHedge cfg account marketId midPrice =
    (if \<not> autoHedge_enabled (autoHedge cfg) then []
     else case positionOf account marketId of
            None \<Rightarrow> []
          | Some pos \<Rightarrow>
              if pos_size pos = 0 then []
              else let hedgeSide = (if pos_size pos > 0 then Ask else Bid);
                       hedgeSize = \<bar>pos_size pos\<bar> * 0.3
                   in [PlaceOrder \<lparr>po_marketId = marketId, po_side = hedgeSide,
                                   po_fillMode = Market, po_isReduceOnly = True,
                                   po_size = Fin hedgeSize, po_price = None\<rparr>])"

text \<open>
  One orderbook event. \<open>riskFetched\<close> is what \<open>fetchInfo\<close> answers inside \<open>canQuote\<close>, \<open>env\<close>
  the outside world during \<open>requote\<close>, and \<open>envHedge\<close> the outside world when the handler
  resolves the mid price a second time for the hedge check, which it does after \<open>requote\<close>
  has returned, whatever \<open>requote\<close> did.
\<close>

definition handleOrderbookUpdate ::
  "BotConfig \<Rightarrow> string + NordUser \<Rightarrow> Env \<Rightarrow> Env \<Rightarrow> MarketMakerLive \<Rightarrow> Orderbook
   \<Rightarrow> MarketMakerLive \<times> effect list" where
  "handleOrderbookUpdate cfg riskFetched env envHedge st orderbook =
    (let marketId = ob_marketId orderbook
     in case activeMarkets st marketId of
          None \<Rightarrow> (st, [])
        | Some market \<Rightarrow>
            if \<not> isOrderbookHealthy orderbook then (st, [])
            else let (riskCheck, u) = canQuote cfg (user st) riskFetched marketId;
                     st0 = st\<lparr>user := u\<rparr>;
                     e0 = (case riskFetched of Inl msg \<Rightarrow> [FetchInfo]
                           | Inr fetched \<Rightarrow> [FetchInfo, GetLeverage])
                 in if \<not> canTrade riskCheck then (st0, e0)
                    else let (st1, e1) = requote cfg env st0 marketId orderbook;
                             (midPriceOpt, st2, e2) =
                                getMidPriceLive cfg envHedge st1 marketId orderbook;
                             e3 = (case midPriceOpt of
                                     None \<Rightarrow> []
                                   | Some midPrice \<Rightarrow>
                                       if midPrice \<noteq> 0
                                          \<and> needsHedge cfg (user st2) marketId midPrice
                                       then executeHedge cfg (user st2) marketId midPrice
                                       else [])
                         in (st2, e0 @ e1 @ e2 @ e3))"

section \<open>Well-formed books and concrete data\<close>

text \<open>Level sizes of a book are quantities, hence not negative.\<close>

definition nonnegSizes :: "Orderbook \<Rightarrow> bool" where
  "nonnegSizes ob = list_all (\<lambda>l. 0 \<le> lvl_size l) (bids ob @ asks ob)"

definition healthyBook :: Orderbook where
  "healthyBook = \<lparr>ob_marketId = 1,
     bids = [\<lparr>lvl_price = 99.9, lvl_size = 10\<rparr>, \<lparr>lvl_price = 99.8, lvl_size = 10\<rparr>],
     asks = [\<lparr>lvl_price = 100.1, lvl_size = 10\<rparr>, \<lparr>lvl_price = 100.2, lvl_size = 10\<rparr>],
     ob_timestamp = 0\<rparr>"

definition imbalancedBook :: Orderbook where
  "imbalancedBook = \<lparr>ob_marketId = 1,
     bids = [\<lparr>lvl_price = 99.9, lvl_size = 40\<rparr>, \<lparr>lvl_price = 99.8, lvl_size = 40\<rparr>],
     asks = [\<lparr>lvl_price = 100.1, lvl_size = 10\<rparr>, \<lparr>lvl_price = 100.2, lvl_size = 10\<rparr>],
     ob_timestamp = 0\<rparr>"

definition crossedBook :: Orderbook where
  "crossedBook = \<lparr>ob_marketId = 1,
     bids = [\<lparr>lvl_price = 101, lvl_size = 10\<rparr>, \<lparr>lvl_price = 100, lvl_size = 10\<rparr>],
     asks = [\<lparr>lvl_price = 100, lvl_size = 10\<rparr>, \<lparr>lvl_price = 100.5, lvl_size = 10\<rparr>],
     ob_timestamp = 0\<rparr>"

definition threePrices :: "ExchangePrice list" where
  "threePrices =
    [\<lparr>ep_bid = 100, ep_ask = 103, ep_mid = 101.5, ep_spread = Fin (3 / 101.5), volume24h = 0,
      ep_timestamp = 1000, ep_source = ''binance''\<rparr>,
     \<lparr>ep_bid = 99, ep_ask = 100.5, ep_mid = 99.75, ep_spread = Fin (1.5 / 99.75), volume24h = 600,
      ep_timestamp = 1000, ep_source = ''bybit''\<rparr>,
     \<lparr>ep_bid = 101, ep_ask = 102, ep_mid = 101.5, ep_spread = Fin (1 / 101.5), volume24h = 300,
      ep_timestamp = 1000, ep_source = ''coinbase''\<rparr>]"

definition cachedSol :: ExchangePrice where
  "cachedSol = \<lparr>ep_bid = 99.9, ep_ask = 100.1, ep_mid = 100, ep_spread = Fin 0.002, volume24h = 0,
                ep_timestamp = 1000, ep_source = ''aggregated(binance)''\<rparr>"

definition solMarket :: Market where
  "solMarket = \<lparr>mk_marketId = 1, symbol = ''SOL-PERP'', baseToken = ''SOL'', quoteToken = ''USDC'',
                 tickSize = 0.01, minSize = 0.001, maxLeverage = 10\<rparr>"

definition emptyUser :: NordUser where
  "emptyUser = \<lparr>balances = Map.empty, positions = [], orders = [], getLeverage = Inr 1\<rparr>"

definition fundedUser :: NordUser where
  "fundedUser =
    \<lparr>balances = [0 \<mapsto> \<lparr>mint = ''USDC'', amount = 10000, availableAmount = 10000\<rparr>],
     positions = [], orders = [], getLeverage = Inr 0.5\<rparr>"

definition zeroCollateralUser :: NordUser where
  "zeroCollateralUser =
    \<lparr>balances = [0 \<mapsto> \<lparr>mint = ''USDC'', amount = 0, availableAmount = 0\<rparr>],
     positions = [(2, \<lparr>pos_marketId = 2, pos_size = 1, entryPrice = 100, unrealizedPnl = 0\<rparr>)],
     orders = [], getLeverage = Inr 1\<rparr>"

definition freshState :: MarketMakerLive where
  "freshState = \<lparr>user = fundedUser, activeMarkets = [1 \<mapsto> solMarket], currentQuotes = Map.empty,
                  lastQuotePrices = Map.empty, priceCache = Map.empty, isRunning = True\<rparr>"

definition quotedState :: MarketMakerLive where
  "quotedState = freshState\<lparr>lastQuotePrices :=
      [1 \<mapsto> \<lparr>lq_bid = Fin 99.92, lq_ask = Fin 100.07, lq_timestamp = 0\<rparr>]\<rparr>"

text \<open>Sources that all fail.\<close>

definition deadSources :: "string \<Rightarrow> source \<Rightarrow> ExchangePrice option" where
  "deadSources sy src = None"

definition quietEnv :: Env where
  "quietEnv = \<lparr>fetchFromSource = deadSources, fetchInfo = Inr fundedUser,
                now_getPrice = 5000, now_aggregate = 5001, now_isFresh = 5002,
                now_lastQuote = 5003, now_currentQuotes = 5004\<rparr>"

definition hedgeConfig :: BotConfig where
  "hedgeConfig = CONFIG\<lparr>autoHedge := \<lparr>autoHedge_enabled = True, imbalanceThreshold = 0.35\<rparr>\<rparr>"

definition longUser :: NordUser where
  "longUser =
    \<lparr>balances = [0 \<mapsto> \<lparr>mint = ''USDC'', amount = 10000, availableAmount = 10000\<rparr>],
     positions = [(1, \<lparr>pos_marketId = 1, pos_size = 12, entryPrice = 100, unrealizedPnl = 0\<rparr>)],
     orders = [], getLeverage = Inr 0.5\<rparr>"

definition hedgedState :: MarketMakerLive where
  "hedgedState = \<lparr>user = longUser, activeMarkets = [1 \<mapsto> solMarket], currentQuotes = Map.empty,
      lastQuotePrices = [1 \<mapsto> \<lparr>lq_bid = Fin 100.005, lq_ask = Fin 100.155, lq_timestamp = 0\<rparr>],
      priceCache = Map.empty, isRunning = True\<rparr>"

definition hedgeEnv :: Env where
  "hedgeEnv = quietEnv\<lparr>fetchInfo := Inr longUser\<rparr>"

definition fixedConfig :: BotConfig where
  "fixedConfig = CONFIG\<lparr>quantityMode := Fixed\<rparr>"

definition tinyConfig :: BotConfig where
  "tinyConfig = CONFIG\<lparr>quantityMode := Fixed, fixedSize := 0.005\<rparr>"

definition zeroMinConfig :: BotConfig where
  "zeroMinConfig = CONFIG\<lparr>risk := (risk CONFIG)\<lparr>minFreeCollateral := 0\<rparr>\<rparr>"

definition biasConfig :: BotConfig where
  "biasConfig = CONFIG\<lparr>assets := [1 \<mapsto> \<lparr>bias = 0\<rparr>], defaultBias := 0.0005\<rparr>"

definition flatBar :: HistoricalBar where
  "flatBar = \<lparr>bar_timestamp = 60000, bar_open = 100, bar_high = 100.5, bar_low = 99.5,
              bar_close = 100, bar_volume = 1000, bar_bidDepth = 50, bar_askDepth = 50\<rparr>"

definition longEngine :: BacktestEngine where
  "longEngine = (newBacktestEngine 10000)
     \<lparr>position := \<lparr>bp_size = 1, bp_entryPrice = 100, realizedPnl = 0, bp_unrealizedPnl = 0\<rparr>\<rparr>"

definition bidOrder :: "real \<Rightarrow> real \<Rightarrow> BacktestOrder" where
  "bidOrder p s = \<lparr>bo_id = ''bid_0_0'', bo_side = BtBid, bo_price = p, bo_size = s,
                   bo_timestamp = 0, filled = False, fillPrice = None, fillTimestamp = None\<rparr>"

definition askOrder :: "real \<Rightarrow> real \<Rightarrow> BacktestOrder" where
  "askOrder p s = \<lparr>bo_id = ''ask_0_0'', bo_side = BtAsk, bo_price = p, bo_size = s,
                   bo_timestamp = 0, filled = False, fillPrice = None, fillTimestamp = None\<rparr>"

section \<open>Auxiliary facts\<close>

lemma foldl_add_sum_list:
  "foldl (\<lambda>s x. s + f x) a xs = (a::real) + sum_list (map f xs)"
  by (induction xs arbitrary: a) simp_all

lemma sumDepth_sum_list: "sumDepth levels = sum_list (map lvl_size levels)"
  by (simp add: sumDepth_def foldl_add_sum_list)

lemma slice0_take: "0 \<le> e \<Longrightarrow> slice0 xs e = take (nat e) xs"
  by (simp add: slice0_def)

lemma clamp_bounds: "mn \<le> mx \<Longrightarrow> mn \<le> clamp v mn mx \<and> clamp v mn mx \<le> mx"
  by (simp add: clamp_def)

lemma clamp_mono: "mn \<le> mx \<Longrightarrow> v \<le> w \<Longrightarrow> clamp v mn mx \<le> clamp w mn mx"
  by (auto simp: clamp_def)

lemma sum_take_nonneg:
  "list_all (\<lambda>l. 0 \<le> lvl_size l) xs \<Longrightarrow> 0 \<le> sum_list (map lvl_size (take d xs))"
  by (rule sum_list_nonneg) (auto simp: list_all_iff dest: in_set_takeD)

lemma spread_fields:
  "sc_bidDepth (computeDynamicSpread cfg ob) =
     sumDepth (slice0 (bids ob) (min (depthLevels (spread cfg))
                                     (min (int (length (bids ob))) (int (length (asks ob))))))"
  "sc_askDepth (computeDynamicSpread cfg ob) =
     sumDepth (slice0 (asks ob) (min (depthLevels (spread cfg))
                                     (min (int (length (bids ob))) (int (length (asks ob))))))"
  "sc_imbalance (computeDynamicSpread cfg ob) =
     (if sc_bidDepth (computeDynamicSpread cfg ob) + sc_askDepth (computeDynamicSpread cfg ob) > 0
      then (sc_bidDepth (computeDynamicSpread cfg ob) - sc_askDepth (computeDynamicSpread cfg ob))
           / (sc_bidDepth (computeDynamicSpread cfg ob) + sc_askDepth (computeDynamicSpread cfg ob))
      else 0)"
  "sc_spread (computeDynamicSpread cfg ob) =
     clamp (spread_min (spread cfg) + \<bar>sc_imbalance (computeDynamicSpread cfg ob)\<bar>
              * (spread_max (spread cfg) - spread_min (spread cfg)))
           (spread_min (spread cfg)) (spread_max (spread cfg))"
  by (simp_all add: computeDynamicSpread_def Let_def)

lemma js_le_not_gt: "js_le a (Fin t) \<Longrightarrow> \<not> js_gt a (Fin t)"
  by (cases a) simp_all

lemma placedOrders_FetchSource: "placedOrders (map (FetchSource s) qs) = []"
  by (induction qs) (simp_all add: placedOrders_def List.map_filter_def)

lemma placedOrders_Nil: "placedOrders [] = []"
  by (simp add: placedOrders_def List.map_filter_def)

text \<open>Resolving the reference price touches the price cache only and sends no order.\<close>

lemma getMidPriceLive_frame:
  assumes "getMidPriceLive cfg env st m ob = (r, st1, e1)"
  shows "lastQuotePrices st1 = lastQuotePrices st" "user st1 = user st"
        "activeMarkets st1 = activeMarkets st" "currentQuotes st1 = currentQuotes st"
        "placedOrders e1 = []"
  using assms
  by (auto simp: getMidPriceLive_def Let_def placedOrders_FetchSource placedOrders_Nil
           split: option.splits if_splits prod.splits)

lemma cancelMarketOrders_frame:
  assumes "cancelMarketOrders env st m = (st', e)"
  shows "lastQuotePrices st' = lastQuotePrices st"
  using assms by (auto simp: cancelMarketOrders_def Let_def split: sum.splits)

subsection \<open>Order statistics of a sorted list\<close>

text \<open>
  In a sorted list the element at index \<open>k\<close> is at most \<open>v\<close> exactly when more than \<open>k\<close>
  elements are at most \<open>v\<close>.
\<close>

lemma sorted_nth_le_iff:
  fixes zs :: "real list"
  assumes "sorted zs" "k < length zs"
  shows "zs ! k \<le> v \<longleftrightarrow> k < length (filter (\<lambda>z. z \<le> v) zs)"
  using assms
proof (induction zs arbitrary: k)
  case Nil
  then show ?case by simp
next
  case (Cons z zs)
  have below: "\<forall>y\<in>set zs. z \<le> y" using Cons.prems(1) by simp
  show ?case
  proof (cases "z \<le> v")
    case True
    show ?thesis
    proof (cases k)
      case 0
      then show ?thesis using True by simp
    next
      case (Suc j)
      then have "j < length zs" using Cons.prems(2) by simp
      moreover have "sorted zs" using Cons.prems(1) by simp
      ultimately have "zs ! j \<le> v \<longleftrightarrow> j < length (filter (\<lambda>z. z \<le> v) zs)"
        by (rule Cons.IH[rotated])
      then show ?thesis using True Suc by simp
    qed
  next
    case False
    then have none: "filter (\<lambda>y. y \<le> v) zs = []"
      using below by (auto simp: filter_empty_conv)
    have "v < (z # zs) ! k"
    proof (cases k)
      case 0
      then show ?thesis using False by simp
    next
      case (Suc j)
      then have "zs ! j \<in> set zs" using Cons.prems(2) by simp
      then have "z \<le> zs ! j" using below by blast
      then show ?thesis using False Suc by simp
    qed
    then show ?thesis using False none by simp
  qed
qed

lemma length_filter_sort:
  "length (filter P (sort xs)) = length (filter P (xs :: real list))"
proof -
  have "mset (filter P (sort xs)) = mset (filter P xs)" by simp
  then show ?thesis by (metis size_mset)
qed

lemma length_filter_dominated:
  assumes "\<forall>p\<in>set ps. f p \<le> (g p :: real)"
  shows "length (filter (\<lambda>z. z \<le> v) (map g ps)) \<le> length (filter (\<lambda>z. z \<le> v) (map f ps))"
  using assms by (induction ps) auto

text \<open>Order statistics are monotone under pointwise domination.\<close>

lemma order_statistic_mono:
  assumes dom: "\<forall>p\<in>set ps. f p \<le> (g p :: real)" and k: "k < length ps"
  shows "sort (map f ps) ! k \<le> sort (map g ps) ! k"
proof -
  define v where "v = sort (map g ps) ! k"
  have "k < length (filter (\<lambda>z. z \<le> v) (sort (map g ps)))"
    using sorted_nth_le_iff[of "sort (map g ps)" k v] k by (simp add: v_def)
  then have "k < length (filter (\<lambda>z. z \<le> v) (map g ps))"
    by (simp only: length_filter_sort)
  then have "k < length (filter (\<lambda>z. z \<le> v) (map f ps))"
    using length_filter_dominated[OF dom, of v] by linarith
  then have "k < length (filter (\<lambda>z. z \<le> v) (sort (map f ps)))"
    by (simp only: length_filter_sort)
  then show ?thesis
    using sorted_nth_le_iff[of "sort (map f ps)" k v] k by (simp add: v_def)
qed

lemma aggregate_fields:
  assumes "prices \<noteq> []"
  shows "aggregatePrices prices now =
    Some \<lparr>ep_bid = sort (map ep_bid prices) ! (length prices div 2),
          ep_ask = sort (map ep_ask prices) ! (length prices div 2),
          ep_mid = sort (map ep_mid prices) ! (length prices div 2),
          ep_spread = js_div (Fin (sort (map ep_ask prices) ! (length prices div 2)
                                   - sort (map ep_bid prices) ! (length prices div 2)))
                             (Fin (sort (map ep_mid prices) ! (length prices div 2))),
          volume24h = foldl (\<lambda>sum p. sum + volume24h p) 0 prices / real (length prices),
          ep_timestamp = now,
          ep_source = ''aggregated('' @ join '','' (map ep_source prices) @ '')''\<rparr>"
  using assms by (simp add: aggregatePrices_def Let_def)

subsection \<open>Single fills of the backtest engine\<close>

lemma fillOrder_flat_bid:
  assumes "bp_size (position eng) = 0" "bo_side b = BtBid" "0 < bo_size b"
  shows "snd (fillOrder eng b bar) =
           eng\<lparr>position := (position eng)\<lparr>bp_size := bo_size b, bp_entryPrice := bo_price b\<rparr>,
               balance := balance eng\<rparr>"
    and "fst (fillOrder eng b bar) =
           b\<lparr>filled := True, fillPrice := Some (bo_price b), fillTimestamp := Some (bar_timestamp bar)\<rparr>"
  using assms by (simp_all add: fillOrder_def Let_def)

lemma fillOrder_close_long:
  assumes "bp_size (position eng) = s" "0 < s" "bo_side a = BtAsk" "bo_size a = s"
  shows "realizedPnl (position (snd (fillOrder eng a bar)))
           = realizedPnl (position eng) + s * (bo_price a - bp_entryPrice (position eng))"
    and "balance (snd (fillOrder eng a bar))
           = balance eng + s * (bo_price a - bp_entryPrice (position eng))"
    and "bp_size (position (snd (fillOrder eng a bar))) = 0"
    and "fillPrice (fst (fillOrder eng a bar)) = Some (bo_price a)"
  using assms by (simp_all add: fillOrder_def Let_def)

section \<open>The quote cycle\<close>

text \<open>Without a reference price (none, or zero) a pass ends at once and sends no order.\<close>

lemma requote_without_mid:
  assumes "getMidPriceLive cfg env st m ob = (r, st1, e1)" "r = None \<or> r = Some 0"
  shows "requote cfg env st m ob = (st1, e1)" "placedOrders (snd (requote cfg env st m ob)) = []"
  using assms getMidPriceLive_frame(5)[OF assms(1)]
  by (auto simp: requote_def)

text \<open>
  The gate inside \<open>requote\<close>, once the pass has resolved a reference price and computed the
  target bid and ask: closed, the pass sends no order and leaves \<open>lastQuotePrices\<close> as
  it was; open, the record is written before any order is sent; a market without a record
  passes.
\<close>

lemma requote_gate:
  assumes mid: "getMidPriceLive cfg env st m ob = (Some midPrice, st1, e1)" "midPrice \<noteq> 0"
      and sk: "sk = applyInventorySkew cfg (user st1) m midPrice (sc_spread (computeDynamicSpread cfg ob))"
      and lq: "lq = \<lparr>lq_bid = bidPrice sk, lq_ask = askPrice sk, lq_timestamp = now_lastQuote env\<rparr>"
  shows "(\<forall>prev. lastQuotePrices st m = Some prev
            \<and> js_le (js_div (js_abs (js_sub (bidPrice sk) (lq_bid prev))) (lq_bid prev))
                    (Fin (requoteThreshold cfg))
            \<and> js_le (js_div (js_abs (js_sub (askPrice sk) (lq_ask prev))) (lq_ask prev))
                    (Fin (requoteThreshold cfg))
          \<longrightarrow> placedOrders (snd (requote cfg env st m ob)) = []
              \<and> snd (requote cfg env st m ob) = e1
              \<and> lastQuotePrices (fst (requote cfg env st m ob)) = lastQuotePrices st)
       \<and> (shouldRequote cfg st m (bidPrice sk) (askPrice sk)
          \<longrightarrow> (\<exists>post. snd (requote cfg env st m ob) = e1 @ SetLastQuotePrices m lq # post)
              \<and> placedOrders e1 = []
              \<and> lastQuotePrices (fst (requote cfg env st m ob)) m = Some lq)
       \<and> (lastQuotePrices st m = None \<longrightarrow> shouldRequote cfg st m (bidPrice sk) (askPrice sk))"
proof -
  note fr = getMidPriceLive_frame[OF mid(1)]
  have same: "shouldRequote cfg st1 m x y = shouldRequote cfg st m x y" for x y
    by (simp add: shouldRequote_def fr(1))
  have closed: "requote cfg env st m ob = (st1, e1)"
    if "\<not> shouldRequote cfg st m (bidPrice sk) (askPrice sk)"
    using that mid sk by (simp add: requote_def Let_def same)
  have a: "placedOrders (snd (requote cfg env st m ob)) = []
           \<and> snd (requote cfg env st m ob) = e1
           \<and> lastQuotePrices (fst (requote cfg env st m ob)) = lastQuotePrices st"
    if "lastQuotePrices st m = Some prev"
       "js_le (js_div (js_abs (js_sub (bidPrice sk) (lq_bid prev))) (lq_bid prev))
              (Fin (requoteThreshold cfg))"
       "js_le (js_div (js_abs (js_sub (askPrice sk) (lq_ask prev))) (lq_ask prev))
              (Fin (requoteThreshold cfg))"
    for prev
  proof -
    have "\<not> shouldRequote cfg st m (bidPrice sk) (askPrice sk)"
      using that by (simp add: shouldRequote_def Let_def js_le_not_gt)
    then show ?thesis using closed fr by simp
  qed
  have b: "(\<exists>post. snd (requote cfg env st m ob) = e1 @ SetLastQuotePrices m lq # post)
           \<and> placedOrders e1 = []
           \<and> lastQuotePrices (fst (requote cfg env st m ob)) m = Some lq"
    if gate: "shouldRequote cfg st m (bidPrice sk) (askPrice sk)"
  proof -
    define st2 where "st2 = st1\<lparr>lastQuotePrices := (lastQuotePrices st1)(m \<mapsto> lq)\<rparr>"
    obtain st3 e3 where c: "cancelMarketOrders env st2 m = (st3, e3)"
      by (cases "cancelMarketOrders env st2 m")
    have l3: "lastQuotePrices st3 m = Some lq"
      using cancelMarketOrders_frame[OF c] by (simp add: st2_def)
    have "(\<exists>post. snd (requote cfg env st m ob) = e1 @ SetLastQuotePrices m lq # post)
          \<and> lastQuotePrices (fst (requote cfg env st m ob)) m = Some lq"
      using mid gate l3 c
      by (simp add: requote_def Let_def same sk[symmetric] lq[symmetric] st2_def[symmetric])
    then show ?thesis using fr(5) by simp
  qed
  have c: "shouldRequote cfg st m (bidPrice sk) (askPrice sk)" if "lastQuotePrices st m = None"
    using that by (simp add: shouldRequote_def)
  from a b c show ?thesis by blast
qed

lemma placedOrders_append: "placedOrders (a @ b) = placedOrders a @ placedOrders b"
  by (simp add: placedOrders_def List.map_filter_def)

lemma placedOrders_riskCalls:
  "placedOrders (case riskFetched of Inl msg \<Rightarrow> [FetchInfo] | Inr fetched \<Rightarrow> [FetchInfo, GetLeverage]) = []"
  by (cases riskFetched) (simp_all add: placedOrders_def List.map_filter_def)

lemma executeHedge_orders:
  "length (placedOrders (executeHedge cfg account m midPrice)) \<le> 1"
  "list_all (\<lambda>p. po_fillMode p = Market \<and> po_isReduceOnly p \<and> po_price p = None \<and> po_marketId p = m)
            (placedOrders (executeHedge cfg account m midPrice))"
  by (simp_all add: executeHedge_def placedOrders_def List.map_filter_def Let_def
               split: option.splits)

text \<open>An event that reaches the quoting step: requote, then the hedge check.\<close>

lemma handleOrderbookUpdate_reaches:
  assumes "activeMarkets st (ob_marketId ob) = Some market" "isOrderbookHealthy ob"
      and "canQuote cfg (user st) riskFetched (ob_marketId ob) = (riskCheck, u)" "canTrade riskCheck"
      and "requote cfg env (st\<lparr>user := u\<rparr>) (ob_marketId ob) ob = (st1, e1)"
      and "getMidPriceLive cfg envHedge st1 (ob_marketId ob) ob = (midPriceOpt, st2, e2)"
  shows "fst (handleOrderbookUpdate cfg riskFetched env envHedge st ob) = st2"
    and "snd (handleOrderbookUpdate cfg riskFetched env envHedge st ob)
         = (case riskFetched of Inl msg \<Rightarrow> [FetchInfo] | Inr fetched \<Rightarrow> [FetchInfo, GetLeverage])
           @ e1 @ e2
           @ (case midPriceOpt of
                None \<Rightarrow> []
              | Some midPrice \<Rightarrow>
                  if midPrice \<noteq> 0 \<and> needsHedge cfg (user st2) (ob_marketId ob) midPrice
                  then executeHedge cfg (user st2) (ob_marketId ob) midPrice else [])"
  using assms by (simp_all add: handleOrderbookUpdate_def Let_def)

lemma handleOrderbookUpdate_stops:
  assumes "activeMarkets st (ob_marketId ob) = None \<or> \<not> isOrderbookHealthy ob
           \<or> \<not> canTrade (fst (canQuote cfg (user st) riskFetched (ob_marketId ob)))"
  shows "placedOrders (snd (handleOrderbookUpdate cfg riskFetched env envHedge st ob)) = []"
  using assms
  by (auto simp: handleOrderbookUpdate_def Let_def placedOrders_Nil placedOrders_riskCalls
           split: option.splits prod.splits)

text \<open>
  C1. Requote gate, on one orderbook event that reaches the gate (market active, book healthy,
  risk check passed, a non-zero reference price resolved). If the market has a
  \<open>lastQuotePrices\<close> record and both fractional changes \<open>|newBid - prev.bid| / prev.bid\<close> and
  \<open>|newAsk - prev.ask| / prev.ask\<close> are at most \<open>requoteThreshold\<close>, then \<open>requote\<close> sends no
  order, the record stays as it was, and the event as a whole sends no order but the hedge:
  at most one order, a reduce-only market order without price, and only when \<open>autoHedge\<close> is
  enabled and the position ratio at the mid price resolved for the hedge check exceeds
  \<open>imbalanceThreshold\<close> in magnitude. If the gate lets the pass through,
  \<open>lastQuotePrices\<close> is written before any order is sent and the record is in place at the
  end of the event. A market without a record always passes the gate.
\<close>

theorem quote_cycle_gate:
  assumes m: "m = ob_marketId ob"
      and active: "activeMarkets st m = Some market"
      and healthy: "isOrderbookHealthy ob"
      and risk: "canQuote cfg (user st) riskFetched m = (riskCheck, u)" "canTrade riskCheck"
      and st0: "st0 = st\<lparr>user := u\<rparr>"
      and mid: "getMidPriceLive cfg env st0 m ob = (Some midPrice, st1, e1)" "midPrice \<noteq> 0"
      and sk: "sk = applyInventorySkew cfg (user st1) m midPrice
                      (sc_spread (computeDynamicSpread cfg ob))"
      and lq: "lq = \<lparr>lq_bid = bidPrice sk, lq_ask = askPrice sk, lq_timestamp = now_lastQuote env\<rparr>"
      and cyc: "cycle = handleOrderbookUpdate cfg riskFetched env envHedge st ob"
  shows "(\<forall>prev. lastQuotePrices st m = Some prev
            \<and> js_le (js_div (js_abs (js_sub (bidPrice sk) (lq_bid prev))) (lq_bid prev))
                    (Fin (requoteThreshold cfg))
            \<and> js_le (js_div (js_abs (js_sub (askPrice sk) (lq_ask prev))) (lq_ask prev))
                    (Fin (requoteThreshold cfg))
          \<longrightarrow> placedOrders (snd (requote cfg env st0 m ob)) = []
              \<and> lastQuotePrices (fst cycle) = lastQuotePrices st
              \<and> length (placedOrders (snd cycle)) \<le> 1
              \<and> list_all (\<lambda>p. po_fillMode p = Market \<and> po_isReduceOnly p \<and> po_price p = None
                               \<and> po_marketId p = m) (placedOrders (snd cycle))
              \<and> (placedOrders (snd cycle) \<noteq> []
                  \<longrightarrow> autoHedge_enabled (autoHedge cfg)
                      \<and> (\<exists>mid2 st2 e2.
                            getMidPriceLive cfg envHedge st1 m ob = (Some mid2, st2, e2)
                            \<and> js_gt (js_abs (getPositionRatio cfg (user st2) m mid2))
                                     (Fin (imbalanceThreshold (autoHedge cfg))))))
       \<and> (shouldRequote cfg st m (bidPrice sk) (askPrice sk)
          \<longrightarrow> (\<exists>pre post. snd cycle = pre @ SetLastQuotePrices m lq # post
                            \<and> placedOrders pre = [])
              \<and> lastQuotePrices (fst cycle) m = Some lq)
       \<and> (lastQuotePrices st m = None \<longrightarrow> shouldRequote cfg st m (bidPrice sk) (askPrice sk))"
proof -
  have lq0: "lastQuotePrices st0 = lastQuotePrices st" by (simp add: st0)
  have same: "shouldRequote cfg st0 m x y = shouldRequote cfg st m x y" for x y
    by (simp add: shouldRequote_def lq0)
  note g = requote_gate[OF mid sk lq, unfolded lq0 same]
  obtain stR eR where rq: "requote cfg env st0 m ob = (stR, eR)"
    by (cases "requote cfg env st0 m ob")
  obtain mo st2 e2 where hm: "getMidPriceLive cfg envHedge stR m ob = (mo, st2, e2)"
    by (cases "getMidPriceLive cfg envHedge stR m ob") auto
  note fr2 = getMidPriceLive_frame[OF hm]
  define e0 where "e0 = (case riskFetched of Inl msg \<Rightarrow> [FetchInfo]
                         | Inr fetched \<Rightarrow> [FetchInfo, GetLeverage])"
  define e3 where "e3 = (case mo of None \<Rightarrow> []
              | Some midPrice \<Rightarrow>
                  if midPrice \<noteq> 0 \<and> needsHedge cfg (user st2) m midPrice
                  then executeHedge cfg (user st2) m midPrice else [])"
  have fstc: "fst cycle = st2" and sndc: "snd cycle = e0 @ eR @ e2 @ e3"
    unfolding cyc e0_def e3_def
    using handleOrderbookUpdate_reaches[OF active[unfolded m] healthy risk[unfolded m]
            rq[unfolded st0 m] hm[unfolded m]]
    unfolding m by simp_all
  have p0: "placedOrders e0 = []" unfolding e0_def by (rule placedOrders_riskCalls)
  have p3: "length (placedOrders e3) \<le> 1"
           "list_all (\<lambda>p. po_fillMode p = Market \<and> po_isReduceOnly p \<and> po_price p = None
                          \<and> po_marketId p = m) (placedOrders e3)"
    unfolding e3_def using executeHedge_orders[where cfg=cfg and account="user st2" and m=m]
    by (auto simp: placedOrders_Nil split: option.splits)
  have h3: "autoHedge_enabled (autoHedge cfg)
            \<and> (\<exists>mid2. mo = Some mid2
                  \<and> js_gt (js_abs (getPositionRatio cfg (user st2) m mid2))
                           (Fin (imbalanceThreshold (autoHedge cfg))))"
    if "placedOrders e3 \<noteq> []"
    using that unfolding e3_def
    by (auto simp: placedOrders_Nil needsHedge_def split: option.splits if_splits)
  have a: "placedOrders (snd (requote cfg env st0 m ob)) = []
              \<and> lastQuotePrices (fst cycle) = lastQuotePrices st
              \<and> length (placedOrders (snd cycle)) \<le> 1
              \<and> list_all (\<lambda>p. po_fillMode p = Market \<and> po_isReduceOnly p \<and> po_price p = None
                               \<and> po_marketId p = m) (placedOrders (snd cycle))
              \<and> (placedOrders (snd cycle) \<noteq> []
                  \<longrightarrow> autoHedge_enabled (autoHedge cfg)
                      \<and> (\<exists>mid2 st2 e2.
                            getMidPriceLive cfg envHedge st1 m ob = (Some mid2, st2, e2)
                            \<and> js_gt (js_abs (getPositionRatio cfg (user st2) m mid2))
                                     (Fin (imbalanceThreshold (autoHedge cfg)))))"
    if "lastQuotePrices st m = Some prev"
       "js_le (js_div (js_abs (js_sub (bidPrice sk) (lq_bid prev))) (lq_bid prev))
              (Fin (requoteThreshold cfg))"
       "js_le (js_div (js_abs (js_sub (askPrice sk) (lq_ask prev))) (lq_ask prev))
              (Fin (requoteThreshold cfg))"
    for prev
  proof -
    from g that have quiet: "placedOrders (snd (requote cfg env st0 m ob)) = []"
      and eq: "snd (requote cfg env st0 m ob) = e1"
      and keep: "lastQuotePrices (fst (requote cfg env st0 m ob)) = lastQuotePrices st"
      by blast+
    have "\<not> shouldRequote cfg st m (bidPrice sk) (askPrice sk)"
      using that by (simp add: shouldRequote_def Let_def js_le_not_gt)
    moreover have "shouldRequote cfg st1 m x y = shouldRequote cfg st m x y" for x y
      by (simp add: shouldRequote_def getMidPriceLive_frame(1)[OF mid(1)] lq0)
    ultimately have "requote cfg env st0 m ob = (st1, e1)"
      using mid sk by (simp add: requote_def Let_def)
    then have sR: "stR = st1" using rq by simp
    have pc: "placedOrders (snd cycle) = placedOrders e3"
      unfolding sndc placedOrders_append p0 fr2(5) using quiet rq by simp
    have l: "lastQuotePrices (fst cycle) = lastQuotePrices st"
      unfolding fstc fr2(1) using keep rq by simp
    show ?thesis
      using quiet l p3 h3 hm unfolding pc sR by blast
  qed
  have b: "(\<exists>pre post. snd cycle = pre @ SetLastQuotePrices m lq # post \<and> placedOrders pre = [])
           \<and> lastQuotePrices (fst cycle) m = Some lq"
    if "shouldRequote cfg st m (bidPrice sk) (askPrice sk)"
  proof -
    from g that obtain post where post: "snd (requote cfg env st0 m ob) = e1 @ SetLastQuotePrices m lq # post"
      and pe1: "placedOrders e1 = []"
      and fin: "lastQuotePrices (fst (requote cfg env st0 m ob)) m = Some lq"
      by blast
    have "snd cycle = (e0 @ e1) @ SetLastQuotePrices m lq # (post @ e2 @ e3)"
      unfolding sndc using post rq by simp
    moreover have "placedOrders (e0 @ e1) = []"
      unfolding placedOrders_append p0 pe1 by simp
    moreover have "lastQuotePrices (fst cycle) m = Some lq"
      unfolding fstc fr2(1) using fin rq by simp
    ultimately show ?thesis by blast
  qed
  have c: "shouldRequote cfg st m (bidPrice sk) (askPrice sk)" if "lastQuotePrices st m = None"
    using that by (simp add: shouldRequote_def)
  from a b c show ?thesis by blast
qed

text \<open>
  The gate at work on the healthy book (mid 100, spread 0.0015, targets 99.925 and 100.075)
  with hedging disabled: with a record at 99.92 and 100.07 the event sends nothing; without
  a record it writes the record first.
\<close>

theorem quote_cycle_gate_witness:
  "1 = ob_marketId healthyBook
   \<and> activeMarkets quotedState 1 = Some solMarket
   \<and> isOrderbookHealthy healthyBook
   \<and> canQuote fixedConfig (user quotedState) (Inr fundedUser) 1 = (allowTrade, fundedUser)
   \<and> canTrade allowTrade
   \<and> getMidPriceLive fixedConfig quietEnv quotedState 1 healthyBook
       = (Some 100, quotedState, [FetchSource ''SOL'' Binance, FetchSource ''SOL'' Bybit])
   \<and> lastQuotePrices quotedState 1 = Some \<lparr>lq_bid = Fin 99.92, lq_ask = Fin 100.07, lq_timestamp = 0\<rparr>
   \<and> js_le (js_div (js_abs (js_sub (Fin 99.925) (Fin 99.92))) (Fin 99.92))
           (Fin (requoteThreshold fixedConfig))
   \<and> js_le (js_div (js_abs (js_sub (Fin 100.075) (Fin 100.07))) (Fin 100.07))
           (Fin (requoteThreshold fixedConfig))
   \<and> \<not> autoHedge_enabled (autoHedge fixedConfig)
   \<and> placedOrders (snd (handleOrderbookUpdate fixedConfig (Inr fundedUser) quietEnv quietEnv
                             quotedState healthyBook)) = []
   \<and> lastQuotePrices (fst (handleOrderbookUpdate fixedConfig (Inr fundedUser) quietEnv quietEnv
                                quotedState healthyBook))
       = lastQuotePrices quotedState
   \<and> lastQuotePrices freshState 1 = None
   \<and> shouldRequote fixedConfig freshState 1 (Fin 99.925) (Fin 100.075)
   \<and> (\<exists>pre post. snd (handleOrderbookUpdate fixedConfig (Inr fundedUser) quietEnv quietEnv
                             freshState healthyBook)
          = pre @ SetLastQuotePrices 1
                    \<lparr>lq_bid = Fin 99.925, lq_ask = Fin 100.075, lq_timestamp = 5003\<rparr> # post
          \<and> placedOrders pre = [])
   \<and> lastQuotePrices (fst (handleOrderbookUpdate fixedConfig (Inr fundedUser) quietEnv quietEnv
                                freshState healthyBook)) 1
       = Some \<lparr>lq_bid = Fin 99.925, lq_ask = Fin 100.075, lq_timestamp = 5003\<rparr>"
proof -
  define prev where "prev = \<lparr>lq_bid = Fin 99.92, lq_ask = Fin 100.07, lq_timestamp = 0\<rparr>"
  define target where "target = \<lparr>bidPrice = Fin 99.925, askPrice = Fin 100.075,
     skewFactor = Fin 0, sk_bias = 0, positionRatio = Fin 0\<rparr>"
  define fetches where "fetches = [FetchSource ''SOL'' Binance, FetchSource ''SOL'' Bybit]"
  define cycleQ where "cycleQ = handleOrderbookUpdate fixedConfig (Inr fundedUser) quietEnv quietEnv
                                  quotedState healthyBook"
  define cycleF where "cycleF = handleOrderbookUpdate fixedConfig (Inr fundedUser) quietEnv quietEnv
                                  freshState healthyBook"
  have sy: "replaceFirst ''-PERP'' '''' ''SOL-PERP'' = ''SOL''" by simp
  have mk: "1 = ob_marketId healthyBook" by (simp add: healthyBook_def)
  have actQ: "activeMarkets quotedState 1 = Some solMarket"
    and actF: "activeMarkets freshState 1 = Some solMarket"
    by (simp_all add: quotedState_def freshState_def)
  have healthy: "isOrderbookHealthy healthyBook"
    by (simp add: isOrderbookHealthy_def getMidPrice_def healthyBook_def Let_def)
  have uQ: "user quotedState = fundedUser" and uF: "user freshState = fundedUser"
    by (simp_all add: quotedState_def freshState_def)
  have risk: "canQuote fixedConfig fundedUser (Inr fundedUser) 1 = (allowTrade, fundedUser)"
    by (simp add: canQuote_def fundedUser_def fixedConfig_def CONFIG_def checkMarginFraction_def
        checkFreeCollateral_def checkMarketExposure_def checkTotalExposure_def allowTrade_def
        positionOf_def exposureRatioOf_def totalExposureOf_def totalCollateralOf_def
        USDC_MINT_INDEX_def Let_def)
  have riskQ: "canQuote fixedConfig (user quotedState) (Inr fundedUser) 1 = (allowTrade, fundedUser)"
    unfolding uQ by (rule risk)
  have riskF: "canQuote fixedConfig (user freshState) (Inr fundedUser) 1 = (allowTrade, fundedUser)"
    unfolding uF by (rule risk)
  have ok: "canTrade allowTrade" by (simp add: allowTrade_def)
  have sQ: "quotedState = quotedState\<lparr>user := fundedUser\<rparr>"
    and sF: "freshState = freshState\<lparr>user := fundedUser\<rparr>"
    by (simp_all add: quotedState_def freshState_def)
  have midQ: "getMidPriceLive fixedConfig quietEnv quotedState 1 healthyBook
     = (Some 100, quotedState, fetches)"
    by (simp add: getMidPriceLive_def getPrice_def quotedState_def freshState_def solMarket_def
        fixedConfig_def CONFIG_def quietEnv_def healthyBook_def getMidPrice_def Let_def
        List.map_filter_def sy fetches_def deadSources_def)
  have midF: "getMidPriceLive fixedConfig quietEnv freshState 1 healthyBook
     = (Some 100, freshState, fetches)"
    by (simp add: getMidPriceLive_def getPrice_def freshState_def solMarket_def
        fixedConfig_def CONFIG_def quietEnv_def healthyBook_def getMidPrice_def Let_def
        List.map_filter_def sy fetches_def deadSources_def)
  have spr: "sc_spread (computeDynamicSpread fixedConfig healthyBook) = 0.0015"
    by (simp add: computeDynamicSpread_def fixedConfig_def CONFIG_def healthyBook_def slice0_def
        sumDepth_def clamp_def Let_def)
  have skew: "applyInventorySkew fixedConfig fundedUser 1 100 0.0015 = target"
    by (simp add: applyInventorySkew_def fixedConfig_def CONFIG_def fundedUser_def
        getPositionRatio_def positionOf_def Let_def target_def)
  have skQ: "target = applyInventorySkew fixedConfig (user quotedState) 1 100
          (sc_spread (computeDynamicSpread fixedConfig healthyBook))"
    unfolding uQ spr skew ..
  have skF: "target = applyInventorySkew fixedConfig (user freshState) 1 100
          (sc_spread (computeDynamicSpread fixedConfig healthyBook))"
    unfolding uF spr skew ..
  have prevQ: "lastQuotePrices quotedState 1 = Some prev"
    by (simp add: quotedState_def prev_def)
  have noneF: "lastQuotePrices freshState 1 = None"
    by (simp add: freshState_def)
  have small:
    "js_le (js_div (js_abs (js_sub (bidPrice target) (lq_bid prev))) (lq_bid prev))
           (Fin (requoteThreshold fixedConfig))"
    "js_le (js_div (js_abs (js_sub (askPrice target) (lq_ask prev))) (lq_ask prev))
           (Fin (requoteThreshold fixedConfig))"
    by (simp_all add: js_sub_def fixedConfig_def CONFIG_def target_def prev_def)
  have off: "\<not> autoHedge_enabled (autoHedge fixedConfig)"
    by (simp add: fixedConfig_def CONFIG_def)
  have nz: "(100::real) \<noteq> 0" by simp
  note gQ = quote_cycle_gate[OF mk actQ healthy riskQ ok sQ midQ nz skQ refl cycleQ_def]
  note gF = quote_cycle_gate[OF mk actF healthy riskF ok sF midF nz skF refl cycleF_def]
  have silent: "placedOrders (snd cycleQ) = []"
    and kept: "lastQuotePrices (fst cycleQ) = lastQuotePrices quotedState"
    using gQ prevQ small off by blast+
  have pass: "shouldRequote fixedConfig freshState 1 (bidPrice target) (askPrice target)"
    using gF noneF by blast
  have written:
    "(\<exists>pre post. snd cycleF
        = pre @ SetLastQuotePrices 1 \<lparr>lq_bid = bidPrice target, lq_ask = askPrice target,
                                      lq_timestamp = now_lastQuote quietEnv\<rparr> # post
        \<and> placedOrders pre = [])
     \<and> lastQuotePrices (fst cycleF) 1
         = Some \<lparr>lq_bid = bidPrice target, lq_ask = askPrice target,
                 lq_timestamp = now_lastQuote quietEnv\<rparr>"
    using gF pass by blast
  have sel: "bidPrice target = Fin 99.925" "askPrice target = Fin 100.075"
            "lq_bid prev = Fin 99.92" "lq_ask prev = Fin 100.07" "now_lastQuote quietEnv = 5003"
    by (simp_all add: target_def prev_def quietEnv_def)
  from mk actQ healthy riskQ ok midQ prevQ small off silent kept noneF pass written
  show ?thesis
    unfolding sel unfolding prev_def fetches_def cycleQ_def cycleF_def by blast
qed

text \<open>
  With hedging enabled and a long position of 12 (position ratio 0.4 above the threshold
  0.35), the target prices 100.00494 and 100.15506 are within the threshold of the record at
  100.005 and 100.155: \<open>requote\<close> sends nothing, and the cycle still sends a reduce-only
  market ask of 3.6.
\<close>

theorem quote_cycle_hedge_counterexample:
  "lastQuotePrices hedgedState 1
     = Some \<lparr>lq_bid = Fin 100.005, lq_ask = Fin 100.155, lq_timestamp = 0\<rparr>
   \<and> applyInventorySkew hedgeConfig longUser 1 100 0.0015
       = \<lparr>bidPrice = Fin 100.00494, askPrice = Fin 100.15506, skewFactor = Fin 0.0008,
          sk_bias = 0, positionRatio = Fin 0.4\<rparr>
   \<and> js_le (js_div (js_abs (js_sub (Fin 100.00494) (Fin 100.005))) (Fin 100.005))
           (Fin (requoteThreshold hedgeConfig))
   \<and> js_le (js_div (js_abs (js_sub (Fin 100.15506) (Fin 100.155))) (Fin 100.155))
           (Fin (requoteThreshold hedgeConfig))
   \<and> placedOrders (snd (requote hedgeConfig hedgeEnv hedgedState 1 healthyBook)) = []
   \<and> placedOrders (snd (handleOrderbookUpdate hedgeConfig (Inr longUser) hedgeEnv hedgeEnv
                             hedgedState healthyBook))
       = [\<lparr>po_marketId = 1, po_side = Ask, po_fillMode = Market, po_isReduceOnly = True,
           po_size = Fin 3.6, po_price = None\<rparr>]"
proof -
  have sy: "replaceFirst ''-PERP'' '''' ''SOL-PERP'' = ''SOL''" by simp
  have rec: "lastQuotePrices hedgedState 1
     = Some \<lparr>lq_bid = Fin 100.005, lq_ask = Fin 100.155, lq_timestamp = 0\<rparr>"
    by (simp add: hedgedState_def)
  have skew: "applyInventorySkew hedgeConfig longUser 1 100 0.0015
       = \<lparr>bidPrice = Fin 100.00494, askPrice = Fin 100.15506, skewFactor = Fin 0.0008,
          sk_bias = 0, positionRatio = Fin 0.4\<rparr>"
    by (simp add: applyInventorySkew_def hedgeConfig_def CONFIG_def longUser_def
        getPositionRatio_def positionOf_def freeCollateralOf_def USDC_MINT_INDEX_def Let_def)
  have small:
    "js_le (js_div (js_abs (js_sub (Fin 100.00494) (Fin 100.005))) (Fin 100.005))
           (Fin (requoteThreshold hedgeConfig))"
    "js_le (js_div (js_abs (js_sub (Fin 100.15506) (Fin 100.155))) (Fin 100.155))
           (Fin (requoteThreshold hedgeConfig))"
    by (simp_all add: js_sub_def hedgeConfig_def CONFIG_def)
  have rq: "requote hedgeConfig hedgeEnv hedgedState 1 healthyBook
            = (hedgedState, [FetchSource ''SOL'' Binance, FetchSource ''SOL'' Bybit])"
    by (simp add: requote_def getMidPriceLive_def getPrice_def hedgedState_def solMarket_def
        hedgeConfig_def CONFIG_def hedgeEnv_def quietEnv_def healthyBook_def getMidPrice_def
        Let_def List.map_filter_def sy deadSources_def computeDynamicSpread_def slice0_def
        sumDepth_def clamp_def applyInventorySkew_def longUser_def getPositionRatio_def
        positionOf_def freeCollateralOf_def USDC_MINT_INDEX_def shouldRequote_def js_sub_def)
  have quiet: "placedOrders (snd (requote hedgeConfig hedgeEnv hedgedState 1 healthyBook)) = []"
    unfolding rq by (simp add: placedOrders_def List.map_filter_def)
  have cyc: "placedOrders (snd (handleOrderbookUpdate hedgeConfig (Inr longUser) hedgeEnv hedgeEnv
                             hedgedState healthyBook))
       = [\<lparr>po_marketId = 1, po_side = Ask, po_fillMode = Market, po_isReduceOnly = True,
           po_size = Fin 3.6, po_price = None\<rparr>]"
    by (simp add: handleOrderbookUpdate_def isOrderbookHealthy_def canQuote_def
        checkMarginFraction_def checkFreeCollateral_def checkMarketExposure_def
        checkTotalExposure_def allowTrade_def exposureRatioOf_def totalExposureOf_def
        totalCollateralOf_def needsHedge_def executeHedge_def
        requote_def getMidPriceLive_def getPrice_def hedgedState_def solMarket_def
        hedgeConfig_def CONFIG_def hedgeEnv_def quietEnv_def healthyBook_def getMidPrice_def
        Let_def List.map_filter_def sy deadSources_def computeDynamicSpread_def slice0_def
        sumDepth_def clamp_def applyInventorySkew_def longUser_def getPositionRatio_def
        positionOf_def freeCollateralOf_def USDC_MINT_INDEX_def shouldRequote_def js_sub_def
        placedOrders_def)
  from rec skew small quiet cyc show ?thesis by blast
qed

text \<open>On the healthy book a first pass in fixed mode sends three bids and three asks of 0.1.\<close>

lemma requote_places_ladder:
  "map po_size (placedOrders (snd (requote fixedConfig quietEnv freshState 1 healthyBook)))
     = [Fin 0.1, Fin 0.1, Fin 0.1, Fin 0.1, Fin 0.1, Fin 0.1]"
proof -
  have sy: "replaceFirst ''-PERP'' '''' ''SOL-PERP'' = ''SOL''" by simp
  show ?thesis
    by (simp add: requote_def getMidPriceLive_def getPrice_def freshState_def solMarket_def
        fixedConfig_def CONFIG_def quietEnv_def healthyBook_def getMidPrice_def Let_def
        List.map_filter_def sy deadSources_def computeDynamicSpread_def slice0_def sumDepth_def clamp_def
        applyInventorySkew_def fundedUser_def getPositionRatio_def positionOf_def
        shouldRequote_def cancelMarketOrders_def calculateLevelSizes_def calculateFixedSizes_def
        freeCollateralOf_def USDC_MINT_INDEX_def validateSizes_def getTotalSize_def
        generateQuoteLevels_def placeQuotes_def placedOrders_def roundSize_def roundPrice_def
        defaultStepSize_def upt_conv_Cons)
qed

section \<open>SpreadCalculator\<close>

text \<open>
  C2. With \<open>spread.min \<le> spread.max\<close>, the spread that \<open>computeDynamicSpread\<close> returns lies
  in \<open>[spread.min, spread.max]\<close> for every orderbook and does not decrease when \<open>|imbalance|\<close>
  grows. For every orderbook whose level sizes are not negative (and a configured depth that
  is not negative) it takes \<open>d = min(depthLevels, |bids|, |asks|)\<close>, \<open>B\<close> and \<open>A\<close> the summed
  sizes of the top \<open>d\<close> bids and asks, \<open>imbalance = (B - A) / (B + A)\<close>, or 0 when
  \<open>B + A = 0\<close>, and returns \<open>spread.min + |imbalance| * (spread.max - spread.min)\<close> clamped
  to the configured range.
\<close>

theorem dynamicSpread_formula:
  assumes mm: "spread_min (spread cfg) \<le> spread_max (spread cfg)"
  shows "let r = computeDynamicSpread cfg ob
         in (0 \<le> depthLevels (spread cfg) \<and> nonnegSizes ob \<longrightarrow>
               (let d = min (nat (depthLevels (spread cfg)))
                            (min (length (bids ob)) (length (asks ob)));
                    B = sum_list (map lvl_size (take d (bids ob)));
                    A = sum_list (map lvl_size (take d (asks ob)));
                    imbalance = (if B + A = 0 then 0 else (B - A) / (B + A));
                    raw = spread_min (spread cfg)
                          + \<bar>imbalance\<bar> * (spread_max (spread cfg) - spread_min (spread cfg))
                in sc_bidDepth r = B \<and> sc_askDepth r = A \<and> sc_imbalance r = imbalance
                   \<and> sc_spread r
                       = max (spread_min (spread cfg)) (min (spread_max (spread cfg)) raw)))
            \<and> spread_min (spread cfg) \<le> sc_spread r \<and> sc_spread r \<le> spread_max (spread cfg)
            \<and> (\<forall>ob'. \<bar>sc_imbalance r\<bar> \<le> \<bar>sc_imbalance (computeDynamicSpread cfg ob')\<bar>
                  \<longrightarrow> sc_spread r \<le> sc_spread (computeDynamicSpread cfg ob'))"
proof -
  define d where
    "d = min (nat (depthLevels (spread cfg))) (min (length (bids ob)) (length (asks ob)))"
  define B where "B = sum_list (map lvl_size (take d (bids ob)))"
  define A where "A = sum_list (map lvl_size (take d (asks ob)))"
  define r where "r = computeDynamicSpread cfg ob"
  have s: "sc_spread r = clamp (spread_min (spread cfg) + \<bar>sc_imbalance r\<bar>
              * (spread_max (spread cfg) - spread_min (spread cfg)))
           (spread_min (spread cfg)) (spread_max (spread cfg))"
    unfolding r_def by (rule spread_fields(4))
  have formula: "sc_bidDepth r = B \<and> sc_askDepth r = A
       \<and> sc_imbalance r = (if B + A = 0 then 0 else (B - A) / (B + A))
       \<and> sc_spread r = max (spread_min (spread cfg)) (min (spread_max (spread cfg))
            (spread_min (spread cfg) + \<bar>if B + A = 0 then 0 else (B - A) / (B + A)\<bar>
               * (spread_max (spread cfg) - spread_min (spread cfg))))"
    if dl: "0 \<le> depthLevels (spread cfg)" and nn: "nonnegSizes ob"
  proof -
    have lv: "nat (min (depthLevels (spread cfg))
                       (min (int (length (bids ob))) (int (length (asks ob))))) = d"
      using dl unfolding d_def by linarith
    have lv0: "0 \<le> min (depthLevels (spread cfg))
                        (min (int (length (bids ob))) (int (length (asks ob))))"
      using dl by simp
    have b: "sc_bidDepth r = B"
      unfolding r_def B_def spread_fields(1) sumDepth_sum_list slice0_take[OF lv0] lv ..
    have a: "sc_askDepth r = A"
      unfolding r_def A_def spread_fields(2) sumDepth_sum_list slice0_take[OF lv0] lv ..
    have B0: "0 \<le> B" and A0: "0 \<le> A"
      using nn unfolding B_def A_def nonnegSizes_def by (simp_all add: sum_take_nonneg)
    have i: "sc_imbalance r = (if B + A = 0 then 0 else (B - A) / (B + A))"
      using B0 A0 unfolding r_def spread_fields(3) b[unfolded r_def] a[unfolded r_def] by auto
    show ?thesis using b a i s unfolding clamp_def by simp
  qed
  have mono: "sc_spread r \<le> sc_spread (computeDynamicSpread cfg ob')"
    if "\<bar>sc_imbalance r\<bar> \<le> \<bar>sc_imbalance (computeDynamicSpread cfg ob')\<bar>" for ob'
  proof -
    have "\<bar>sc_imbalance r\<bar> * (spread_max (spread cfg) - spread_min (spread cfg))
          \<le> \<bar>sc_imbalance (computeDynamicSpread cfg ob')\<bar>
              * (spread_max (spread cfg) - spread_min (spread cfg))"
      using that mm by (intro mult_right_mono) simp_all
    then show ?thesis
      unfolding s spread_fields(4)[of cfg ob'] using mm by (intro clamp_mono) simp_all
  qed
  have bounds: "spread_min (spread cfg) \<le> sc_spread r" "sc_spread r \<le> spread_max (spread cfg)"
    unfolding s using clamp_bounds[OF mm] by simp_all
  show ?thesis
    unfolding Let_def d_def[symmetric] B_def[symmetric] A_def[symmetric] r_def[symmetric]
    using formula bounds mono by blast
qed

text \<open>
  On the balanced book the imbalance is 0 and the spread is \<open>spread.min\<close>; on the book with
  bid sizes 40 against ask sizes 10 the imbalance is 0.6 and the spread 0.0081.
\<close>

theorem dynamicSpread_formula_witness:
  "spread_min (spread CONFIG) \<le> spread_max (spread CONFIG)
   \<and> 0 \<le> depthLevels (spread CONFIG)
   \<and> nonnegSizes imbalancedBook
   \<and> sc_bidDepth (computeDynamicSpread CONFIG imbalancedBook) = 80
   \<and> sc_askDepth (computeDynamicSpread CONFIG imbalancedBook) = 20
   \<and> sc_imbalance (computeDynamicSpread CONFIG imbalancedBook) = 0.6
   \<and> sc_spread (computeDynamicSpread CONFIG imbalancedBook) = 0.0081
   \<and> sc_imbalance (computeDynamicSpread CONFIG healthyBook) = 0
   \<and> \<bar>sc_imbalance (computeDynamicSpread CONFIG healthyBook)\<bar>
       \<le> \<bar>sc_imbalance (computeDynamicSpread CONFIG imbalancedBook)\<bar>
   \<and> sc_spread (computeDynamicSpread CONFIG healthyBook)
       \<le> sc_spread (computeDynamicSpread CONFIG imbalancedBook)
   \<and> spread_min (spread CONFIG) \<le> sc_spread (computeDynamicSpread CONFIG healthyBook)
   \<and> sc_spread (computeDynamicSpread CONFIG healthyBook) \<le> spread_max (spread CONFIG)"
proof -
  have h1: "spread_min (spread CONFIG) \<le> spread_max (spread CONFIG)"
    by (simp add: CONFIG_def)
  have h2: "0 \<le> depthLevels (spread CONFIG)"
    by (simp add: CONFIG_def)
  have h3: "nonnegSizes imbalancedBook"
    by (simp add: nonnegSizes_def imbalancedBook_def)
  have d: "min (nat (depthLevels (spread CONFIG)))
               (min (length (bids imbalancedBook)) (length (asks imbalancedBook))) = 2"
    by (simp add: CONFIG_def imbalancedBook_def)
  have B: "sum_list (map lvl_size (take 2 (bids imbalancedBook))) = 80"
    and A: "sum_list (map lvl_size (take 2 (asks imbalancedBook))) = 20"
    by (simp_all add: imbalancedBook_def)
  have cfgv: "spread_min (spread CONFIG) = 0.0015" "spread_max (spread CONFIG) = 0.0125"
    by (simp_all add: CONFIG_def)
  note t1 = dynamicSpread_formula[OF h1, of imbalancedBook, unfolded Let_def]
  from t1 h2 h3 have f:
    "sc_bidDepth (computeDynamicSpread CONFIG imbalancedBook) = 80"
    "sc_askDepth (computeDynamicSpread CONFIG imbalancedBook) = 20"
    "sc_imbalance (computeDynamicSpread CONFIG imbalancedBook) = 0.6"
    "sc_spread (computeDynamicSpread CONFIG imbalancedBook) = 0.0081"
    unfolding d B A cfgv by simp_all
  have i0: "sc_imbalance (computeDynamicSpread CONFIG healthyBook) = 0"
    by (simp add: computeDynamicSpread_def CONFIG_def healthyBook_def slice0_def sumDepth_def
        Let_def)
  have le: "\<bar>sc_imbalance (computeDynamicSpread CONFIG healthyBook)\<bar>
       \<le> \<bar>sc_imbalance (computeDynamicSpread CONFIG imbalancedBook)\<bar>"
    unfolding i0 f(3) by simp
  note t0 = dynamicSpread_formula[OF h1, of healthyBook, unfolded Let_def]
  have bounds: "spread_min (spread CONFIG) \<le> sc_spread (computeDynamicSpread CONFIG healthyBook)"
               "sc_spread (computeDynamicSpread CONFIG healthyBook) \<le> spread_max (spread CONFIG)"
    using t0 by blast+
  have mono: "sc_spread (computeDynamicSpread CONFIG healthyBook)
       \<le> sc_spread (computeDynamicSpread CONFIG imbalancedBook)"
    using t0 le by blast
  from h1 h2 h3 f i0 le mono bounds show ?thesis by blast
qed

text \<open>
  C4. On every orderbook that \<open>isOrderbookHealthy\<close> accepts, both sides have at least two
  levels, the mid price is defined and not zero, and the top-of-book spread
  \<open>(bestAsk - bestBid) / mid\<close> is at most 0.05. The check does not compare the best bid with
  the best ask.
\<close>

theorem isHealthy_gives:
  assumes "isOrderbookHealthy ob"
  shows "2 \<le> length (bids ob) \<and> 2 \<le> length (asks ob)
         \<and> (\<exists>mid. getMidPrice ob = Some mid \<and> mid \<noteq> 0
                \<and> mid = (lvl_price (bids ob ! 0) + lvl_price (asks ob ! 0)) / 2
                \<and> (lvl_price (asks ob ! 0) - lvl_price (bids ob ! 0)) / mid \<le> 0.05)"
proof -
  define mid where "mid = (lvl_price (bids ob ! 0) + lvl_price (asks ob ! 0)) / 2"
  have len: "\<not> (length (bids ob) < 2 \<or> length (asks ob) < 2)"
    using assms unfolding isOrderbookHealthy_def by (metis (full_types))
  then have m: "getMidPrice ob = Some mid"
    unfolding getMidPrice_def mid_def by auto
  have rest: "(if mid = 0 then False
               else if (lvl_price (asks ob ! 0) - lvl_price (bids ob ! 0)) / mid > 0.05
                    then False else True)"
    using assms unfolding isOrderbookHealthy_def Let_def m option.case
    by (simp only: len if_False)
  then have nz: "mid \<noteq> 0" by (metis (full_types))
  with rest have sp: "(lvl_price (asks ob ! 0) - lvl_price (bids ob ! 0)) / mid \<le> 0.05"
    by (simp only: if_False linorder_not_less split: if_splits)
  from len have l2: "2 \<le> length (bids ob)" "2 \<le> length (asks ob)" by simp_all
  from l2 m nz sp show ?thesis unfolding mid_def by blast
qed

theorem isHealthy_gives_witness:
  "isOrderbookHealthy healthyBook
   \<and> 2 \<le> length (bids healthyBook) \<and> 2 \<le> length (asks healthyBook)
   \<and> (\<exists>mid. getMidPrice healthyBook = Some mid \<and> mid \<noteq> 0
          \<and> mid = (lvl_price (bids healthyBook ! 0) + lvl_price (asks healthyBook ! 0)) / 2
          \<and> (lvl_price (asks healthyBook ! 0) - lvl_price (bids healthyBook ! 0)) / mid \<le> 0.05)"
proof -
  have h: "isOrderbookHealthy healthyBook"
    by (simp add: isOrderbookHealthy_def getMidPrice_def healthyBook_def Let_def)
  from h isHealthy_gives[OF h] show ?thesis by blast
qed

text \<open>
  A crossed book, best bid 101 above best ask 100, passes the health check: its mid is 100.5
  and its top-of-book spread is negative.
\<close>

theorem isHealthy_crossed_counterexample:
  "isOrderbookHealthy crossedBook
   \<and> \<not> lvl_price (bids crossedBook ! 0) < lvl_price (asks crossedBook ! 0)"
  by (simp add: isOrderbookHealthy_def getMidPrice_def crossedBook_def Let_def)

section \<open>PriceOracle\<close>

text \<open>
  C6. For every list of \<open>n \<ge> 1\<close> source prices, \<open>aggregatePrices\<close> returns a price whose bid,
  ask and mid are each the element at index \<open>n div 2\<close> of the ascending arrangement of that
  field over the sources (whatever procedure produced the arrangement), whose spread is
  \<open>(ask - bid) / mid\<close>, whose volume is the arithmetic mean of the volumes, and whose source
  tag is \<open>aggregated(\<close>, the comma-joined source names, \<open>)\<close>.
\<close>

theorem aggregate_median:
  assumes "prices \<noteq> []"
  shows "\<exists>r. aggregatePrices prices now = Some r
     \<and> (\<forall>ys. sorted ys \<and> mset ys = mset (map ep_bid prices)
            \<longrightarrow> ep_bid r = ys ! (length prices div 2))
     \<and> (\<forall>ys. sorted ys \<and> mset ys = mset (map ep_ask prices)
            \<longrightarrow> ep_ask r = ys ! (length prices div 2))
     \<and> (\<forall>ys. sorted ys \<and> mset ys = mset (map ep_mid prices)
            \<longrightarrow> ep_mid r = ys ! (length prices div 2))
     \<and> ep_spread r = js_div (Fin (ep_ask r - ep_bid r)) (Fin (ep_mid r))
     \<and> (ep_mid r \<noteq> 0 \<longrightarrow> ep_spread r = Fin ((ep_ask r - ep_bid r) / ep_mid r))
     \<and> volume24h r = sum_list (map volume24h prices) / real (length prices)
     \<and> ep_source r = ''aggregated('' @ join '','' (map ep_source prices) @ '')''"
proof -
  define k where "k = length prices div 2"
  define r where "r = \<lparr>ep_bid = sort (map ep_bid prices) ! k,
          ep_ask = sort (map ep_ask prices) ! k,
          ep_mid = sort (map ep_mid prices) ! k,
          ep_spread = js_div (Fin (sort (map ep_ask prices) ! k - sort (map ep_bid prices) ! k))
                             (Fin (sort (map ep_mid prices) ! k)),
          volume24h = foldl (\<lambda>sum p. sum + volume24h p) 0 prices / real (length prices),
          ep_timestamp = now,
          ep_source = ''aggregated('' @ join '','' (map ep_source prices) @ '')''\<rparr>"
  have agg: "aggregatePrices prices now = Some r"
    unfolding r_def k_def by (rule aggregate_fields[OF assms])
  have srt: "sort xs ! k = ys ! k" if "sorted ys \<and> mset ys = mset xs" for xs ys :: "real list"
    using that properties_for_sort[of ys xs] by simp
  have b: "\<forall>ys. sorted ys \<and> mset ys = mset (map ep_bid prices) \<longrightarrow> ep_bid r = ys ! k"
    unfolding r_def using srt by simp
  have a: "\<forall>ys. sorted ys \<and> mset ys = mset (map ep_ask prices) \<longrightarrow> ep_ask r = ys ! k"
    unfolding r_def using srt by simp
  have m: "\<forall>ys. sorted ys \<and> mset ys = mset (map ep_mid prices) \<longrightarrow> ep_mid r = ys ! k"
    unfolding r_def using srt by simp
  have s: "ep_spread r = js_div (Fin (ep_ask r - ep_bid r)) (Fin (ep_mid r))"
    unfolding r_def by simp
  then have s': "ep_mid r \<noteq> 0 \<longrightarrow> ep_spread r = Fin ((ep_ask r - ep_bid r) / ep_mid r)"
    by simp
  have v: "volume24h r = sum_list (map volume24h prices) / real (length prices)"
    unfolding r_def by (simp add: foldl_add_sum_list)
  have t: "ep_source r = ''aggregated('' @ join '','' (map ep_source prices) @ '')''"
    unfolding r_def by simp
  from agg b a m s s' v t show ?thesis unfolding k_def by blast
qed

text \<open>
  Three sources with bids 100, 99, 101, asks 103, 100.5, 102 and mids 101.5, 99.75, 101.5:
  the aggregate takes bid 100 from the first source, ask 102 from the third and mid 101.5.
\<close>

theorem aggregate_median_witness:
  "threePrices \<noteq> []
   \<and> sorted [99, 100, 101 :: real] \<and> mset [99, 100, 101] = mset (map ep_bid threePrices)
   \<and> sorted [100.5, 102, 103 :: real] \<and> mset [100.5, 102, 103] = mset (map ep_ask threePrices)
   \<and> sorted [99.75, 101.5, 101.5 :: real]
   \<and> mset [99.75, 101.5, 101.5] = mset (map ep_mid threePrices)
   \<and> (\<exists>r. aggregatePrices threePrices 5000 = Some r
          \<and> ep_bid r = 100 \<and> ep_ask r = 102 \<and> ep_mid r = 101.5
          \<and> ep_spread r = Fin ((102 - 100) / 101.5)
          \<and> volume24h r = 300
          \<and> ep_source r = ''aggregated(binance,bybit,coinbase)'')"
proof -
  have ne: "threePrices \<noteq> []" by (simp add: threePrices_def)
  have sb: "sorted [99, 100, 101 :: real] \<and> mset [99, 100, 101] = mset (map ep_bid threePrices)"
    by (simp add: threePrices_def)
  have sa: "sorted [100.5, 102, 103 :: real]
            \<and> mset [100.5, 102, 103] = mset (map ep_ask threePrices)"
    by (simp add: threePrices_def)
  have sm: "sorted [99.75, 101.5, 101.5 :: real]
            \<and> mset [99.75, 101.5, 101.5] = mset (map ep_mid threePrices)"
    by (simp add: threePrices_def)
  have n: "length threePrices div 2 = Suc 0" by (simp add: threePrices_def)
  obtain r where r: "aggregatePrices threePrices 5000 = Some r"
      and rb: "\<forall>ys. sorted ys \<and> mset ys = mset (map ep_bid threePrices)
                 \<longrightarrow> ep_bid r = ys ! (length threePrices div 2)"
      and ra: "\<forall>ys. sorted ys \<and> mset ys = mset (map ep_ask threePrices)
                 \<longrightarrow> ep_ask r = ys ! (length threePrices div 2)"
      and rm: "\<forall>ys. sorted ys \<and> mset ys = mset (map ep_mid threePrices)
                 \<longrightarrow> ep_mid r = ys ! (length threePrices div 2)"
      and rs: "ep_mid r \<noteq> 0 \<longrightarrow> ep_spread r = Fin ((ep_ask r - ep_bid r) / ep_mid r)"
      and rv: "volume24h r = sum_list (map volume24h threePrices) / real (length threePrices)"
      and rt: "ep_source r = ''aggregated('' @ join '','' (map ep_source threePrices) @ '')''"
    using aggregate_median[OF ne, of 5000] by blast
  have b: "ep_bid r = 100" using rb sb unfolding n by (metis nth_Cons_0 nth_Cons_Suc)
  have a: "ep_ask r = 102" using ra sa unfolding n by (metis nth_Cons_0 nth_Cons_Suc)
  have m: "ep_mid r = 101.5" using rm sm unfolding n by (metis nth_Cons_0 nth_Cons_Suc)
  have s: "ep_spread r = Fin ((102 - 100) / 101.5)" using rs unfolding b a m by simp
  have v: "volume24h r = 300" unfolding rv by (simp add: threePrices_def)
  have t: "ep_source r = ''aggregated(binance,bybit,coinbase)''"
    unfolding rt by (simp add: threePrices_def)
  from ne sb sa sm r b a m s v t show ?thesis by blast
qed

text \<open>
  C9. For every non-empty list of source prices in which each source has \<open>bid \<le> ask\<close>, the
  aggregated price has \<open>bid \<le> ask\<close>, although the two medians are taken independently.
\<close>

theorem aggregate_bid_le_ask:
  assumes "prices \<noteq> []" and "\<forall>p\<in>set prices. ep_bid p \<le> ep_ask p"
  shows "\<exists>r. aggregatePrices prices now = Some r \<and> ep_bid r \<le> ep_ask r"
proof -
  have "length prices div 2 < length prices" using assms(1) by simp
  then have "sort (map ep_bid prices) ! (length prices div 2)
             \<le> sort (map ep_ask prices) ! (length prices div 2)"
    by (rule order_statistic_mono[OF assms(2)])
  then show ?thesis unfolding aggregate_fields[OF assms(1)] by simp
qed

theorem aggregate_bid_le_ask_witness:
  "threePrices \<noteq> [] \<and> list_all (\<lambda>p. ep_bid p \<le> ep_ask p) threePrices
   \<and> (\<exists>r. aggregatePrices threePrices 5000 = Some r \<and> ep_bid r \<le> ep_ask r)"
proof -
  have ne: "threePrices \<noteq> []" by (simp add: threePrices_def)
  have la: "list_all (\<lambda>p. ep_bid p \<le> ep_ask p) threePrices" by (simp add: threePrices_def)
  then have le: "\<forall>p\<in>set threePrices. ep_bid p \<le> ep_ask p" by (simp add: list_all_iff)
  from ne la aggregate_bid_le_ask[OF ne le, of 5000] show ?thesis by blast
qed

text \<open>
  C7. \<open>getPrice\<close>: a cache entry whose age \<open>now - entry.timestamp\<close> is strictly below
  \<open>cacheTimeout\<close> is returned without querying any source, and the cache stays as it is. If
  every configured source fails, the result is the cache entry for the symbol when there is
  one and nothing otherwise, and the cache stays as it is.
\<close>

theorem getPrice_cache_and_fallback:
  "(\<forall>e. cache sy = Some e \<and> real_of_int (now - ep_timestamp e) < cacheTimeout ocfg
       \<longrightarrow> getPrice ocfg cache fetch now nowAgg sy = (Some e, cache, []))
   \<and> ((\<forall>s\<in>set (sources ocfg). fetch sy s = None)
       \<longrightarrow> fst (getPrice ocfg cache fetch now nowAgg sy) = cache sy
           \<and> fst (snd (getPrice ocfg cache fetch now nowAgg sy)) = cache)"
proof -
  have empty: "List.map_filter (fetch sy) (sources ocfg) = []"
    if "\<forall>s\<in>set (sources ocfg). fetch sy s = None"
    using that by (auto simp: List.map_filter_def filter_empty_conv)
  show ?thesis
    by (auto simp: getPrice_def Let_def empty split: option.splits)
qed

text \<open>
  With the shipped configuration (timeout 10000): an entry stamped 1000 is served from the
  cache at time 5000; at time 20000, with both sources failing, the stale entry is returned,
  and a symbol without an entry yields nothing.
\<close>

theorem getPrice_cache_and_fallback_witness:
  "[''SOL'' \<mapsto> cachedSol] ''SOL'' = Some cachedSol
   \<and> real_of_int (5000 - ep_timestamp cachedSol) < cacheTimeout (oracle_cfg CONFIG)
   \<and> getPrice (oracle_cfg CONFIG) [''SOL'' \<mapsto> cachedSol] deadSources 5000 5001 ''SOL''
       = (Some cachedSol, [''SOL'' \<mapsto> cachedSol], [])
   \<and> sources (oracle_cfg CONFIG) = [Binance, Bybit]
   \<and> deadSources ''SOL'' Binance = None \<and> deadSources ''SOL'' Bybit = None
   \<and> \<not> real_of_int (20000 - ep_timestamp cachedSol) < cacheTimeout (oracle_cfg CONFIG)
   \<and> fst (getPrice (oracle_cfg CONFIG) [''SOL'' \<mapsto> cachedSol] deadSources 20000 20001 ''SOL'')
       = Some cachedSol
   \<and> fst (snd (getPrice (oracle_cfg CONFIG) [''SOL'' \<mapsto> cachedSol] deadSources 20000 20001 ''SOL''))
       = [''SOL'' \<mapsto> cachedSol]
   \<and> fst (getPrice (oracle_cfg CONFIG) [''SOL'' \<mapsto> cachedSol] deadSources 20000 20001 ''BTC'')
       = None"
proof -
  define cache where "cache = [''SOL'' \<mapsto> cachedSol]"
  have c: "cache ''SOL'' = Some cachedSol" by (simp add: cache_def)
  have c': "cache ''BTC'' = None" by (simp add: cache_def)
  have fresh: "real_of_int (5000 - ep_timestamp cachedSol) < cacheTimeout (oracle_cfg CONFIG)"
    by (simp add: cachedSol_def CONFIG_def)
  have old: "\<not> real_of_int (20000 - ep_timestamp cachedSol) < cacheTimeout (oracle_cfg CONFIG)"
    by (simp add: cachedSol_def CONFIG_def)
  have srcs: "sources (oracle_cfg CONFIG) = [Binance, Bybit]" by (simp add: CONFIG_def)
  have dead: "deadSources ''SOL'' Binance = None" "deadSources ''SOL'' Bybit = None"
    by (simp_all add: deadSources_def)
  have fail: "\<forall>s\<in>set (sources (oracle_cfg CONFIG)). deadSources ''SOL'' s = None"
    unfolding srcs using dead by simp
  have fail': "\<forall>s\<in>set (sources (oracle_cfg CONFIG)). deadSources ''BTC'' s = None"
    by (simp add: deadSources_def)
  have hit: "getPrice (oracle_cfg CONFIG) cache deadSources 5000 5001 ''SOL''
             = (Some cachedSol, cache, [])"
    using getPrice_cache_and_fallback[of cache "''SOL''" 5000 "oracle_cfg CONFIG" deadSources 5001]
          c fresh by blast
  have stale: "fst (getPrice (oracle_cfg CONFIG) cache deadSources 20000 20001 ''SOL'') = Some cachedSol
               \<and> fst (snd (getPrice (oracle_cfg CONFIG) cache deadSources 20000 20001 ''SOL'')) = cache"
    using getPrice_cache_and_fallback[of cache "''SOL''" 20000 "oracle_cfg CONFIG" deadSources 20001]
          fail c by simp
  have none: "fst (getPrice (oracle_cfg CONFIG) cache deadSources 20000 20001 ''BTC'') = None"
    using getPrice_cache_and_fallback[of cache "''BTC''" 20000 "oracle_cfg CONFIG" deadSources 20001]
          fail' c' by simp
  from c fresh hit srcs dead old stale none show ?thesis unfolding cache_def by blast
qed

section \<open>SizingCalculator\<close>

text \<open>
  C10. \<open>roundSize\<close> does not keep its result at or above \<open>minSize\<close>: there are sizes with
  \<open>minSize \<le> size\<close> and \<open>minSize\<close> below the default step 0.01 for which the result
  \<open>floor(size / stepSize) * stepSize\<close> is below \<open>minSize\<close> and in fact 0, and \<open>placeQuotes\<close>,
  hence a pass of \<open>requote\<close>, then sends orders of size 0 to the venue.
\<close>

theorem roundSize_below_minSize:
  "\<exists>sz minSz. 0 < minSz \<and> minSz \<le> sz \<and> minSz < defaultStepSize
      \<and> roundSize sz minSz defaultStepSize
          = Fin (of_int \<lfloor>sz / defaultStepSize\<rfloor> * defaultStepSize)
      \<and> js_gt (Fin minSz) (roundSize sz minSz defaultStepSize)
      \<and> roundSize sz minSz defaultStepSize = Fin 0
      \<and> (\<exists>st marketId market p.
             activeMarkets st marketId = Some market \<and> minSize market = minSz
             \<and> p \<in> set (placedOrders (placeQuotes st marketId
                                         ([\<lparr>ql_price = Fin 99.9, ql_size = sz\<rparr>], [])))
             \<and> po_size p = Fin 0)
      \<and> (\<exists>cfg env st marketId market ob.
             activeMarkets st marketId = Some market \<and> minSize market = minSz
             \<and> fixedSize cfg = sz \<and> quantityMode cfg = Fixed
             \<and> map po_size (placedOrders (snd (requote cfg env st marketId ob)))
                 = [Fin 0, Fin 0, Fin 0, Fin 0, Fin 0, Fin 0])"
proof -
  have z: "roundSize 0.005 0.001 defaultStepSize = Fin 0"
    by (simp add: roundSize_def defaultStepSize_def)
  have "placedOrders (placeQuotes freshState 1 ([\<lparr>ql_price = Fin 99.9, ql_size = 0.005\<rparr>], []))
        = [\<lparr>po_marketId = 1, po_side = Bid, po_fillMode = Limit, po_isReduceOnly = False,
            po_size = Fin 0, po_price = Some (roundPrice (Fin 99.9) 0.01)\<rparr>]"
    by (simp add: placedOrders_def placeQuotes_def freshState_def solMarket_def roundSize_def
                  defaultStepSize_def List.map_filter_def)
  then have sent: "\<exists>st marketId market p.
             activeMarkets st marketId = Some market \<and> minSize market = 0.001
             \<and> p \<in> set (placedOrders (placeQuotes st marketId
                                         ([\<lparr>ql_price = Fin 99.9, ql_size = 0.005\<rparr>], [])))
             \<and> po_size p = Fin 0"
    by (intro exI[of _ freshState] exI[of _ 1] exI[of _ solMarket])
       (simp add: freshState_def solMarket_def)
  have sy: "replaceFirst ''-PERP'' '''' ''SOL-PERP'' = ''SOL''" by simp
  have "map po_size (placedOrders (snd (requote tinyConfig quietEnv freshState 1 healthyBook)))
          = [Fin 0, Fin 0, Fin 0, Fin 0, Fin 0, Fin 0]"
    by (simp add: requote_def getMidPriceLive_def getPrice_def freshState_def solMarket_def
        tinyConfig_def CONFIG_def quietEnv_def healthyBook_def getMidPrice_def Let_def
        List.map_filter_def sy deadSources_def computeDynamicSpread_def slice0_def sumDepth_def
        clamp_def applyInventorySkew_def fundedUser_def getPositionRatio_def positionOf_def
        shouldRequote_def cancelMarketOrders_def calculateLevelSizes_def calculateFixedSizes_def
        freeCollateralOf_def USDC_MINT_INDEX_def validateSizes_def getTotalSize_def
        generateQuoteLevels_def placeQuotes_def placedOrders_def roundSize_def roundPrice_def
        defaultStepSize_def upt_conv_Cons)
  then have pass: "\<exists>cfg env st marketId market ob.
             activeMarkets st marketId = Some market \<and> minSize market = 0.001
             \<and> fixedSize cfg = 0.005 \<and> quantityMode cfg = Fixed
             \<and> map po_size (placedOrders (snd (requote cfg env st marketId ob)))
                 = [Fin 0, Fin 0, Fin 0, Fin 0, Fin 0, Fin 0]"
    by (intro exI[of _ tinyConfig] exI[of _ quietEnv] exI[of _ freshState] exI[of _ 1]
              exI[of _ solMarket] exI[of _ healthyBook])
       (simp add: freshState_def solMarket_def tinyConfig_def)
  have f: "roundSize 0.005 0.001 defaultStepSize
        = Fin (of_int \<lfloor>0.005 / defaultStepSize\<rfloor> * defaultStepSize)"
    by (simp add: roundSize_def defaultStepSize_def)
  from sent pass f z show ?thesis
    by (intro exI[of _ "0.005"] exI[of _ "0.001"]) (simp add: defaultStepSize_def)
qed

section \<open>InventoryManager\<close>

text \<open>
  C5. The bias that \<open>applyInventorySkew\<close> uses for a market should be the configured
  \<open>assets[market].bias\<close> whenever the market has an entry, also when that bias is 0. With the
  entry \<open>{bias: 0}\<close> for market 1 and \<open>defaultBias = 0.0005\<close> the function uses 0.0005, with
  inventory skew enabled as well as disabled.
\<close>

theorem bias_zero_takes_default:
  "assets biasConfig 1 = Some \<lparr>bias = 0\<rparr>
   \<and> defaultBias biasConfig = 0.0005
   \<and> sk_bias (applyInventorySkew biasConfig emptyUser 1 100 0.0015) = 0.0005
   \<and> sk_bias (applyInventorySkew (biasConfig\<lparr>inventorySkewEnabled := False\<rparr>) emptyUser 1 100 0.0015)
       = 0.0005"
  by (simp add: applyInventorySkew_def biasConfig_def CONFIG_def Let_def)

section \<open>RiskManager\<close>

text \<open>
  C3. Every division in the risk computations should be guarded against a zero divisor and
  return zero instead of an infinity. \<open>getPositionRatio\<close> returns 0 when the available
  collateral is 0, but \<open>checkTotalExposure\<close> divides by the total collateral unguarded: with
  total collateral 0 the exposure ratio is \<open>Infinity\<close> when there is exposure (and is reported
  so in the details of the denial, also through \<open>canQuote\<close>) and \<open>NaN\<close> when there is none
  (and the check allows trading).
\<close>

theorem totalExposure_unguarded:
  "totalCollateralOf zeroCollateralUser = 0
   \<and> exposureRatioOf zeroCollateralUser = PosInf
   \<and> exposureRatioOf (zeroCollateralUser\<lparr>positions := []\<rparr>) = NaN
   \<and> details (checkTotalExposure CONFIG zeroCollateralUser)
       = Some [(''totalExposure'', DNum (Fin 100)), (''totalCollateral'', DNum (Fin 0)),
               (''exposureRatio'', DNum PosInf), (''maxAllowed'', DNum (Fin 0.6))]
   \<and> canTrade (checkTotalExposure CONFIG (zeroCollateralUser\<lparr>positions := []\<rparr>))
   \<and> fst (canQuote zeroMinConfig emptyUser (Inr zeroCollateralUser) 1)
       = \<lparr>canTrade = False, reason = Some ''Total exposure limit exceeded'',
          details = Some [(''totalExposure'', DNum (Fin 100)), (''totalCollateral'', DNum (Fin 0)),
                          (''exposureRatio'', DNum PosInf), (''maxAllowed'', DNum (Fin 0.6))]\<rparr>
   \<and> getPositionRatio CONFIG (zeroCollateralUser\<lparr>positions :=
         [(1, \<lparr>pos_marketId = 1, pos_size = 1, entryPrice = 100, unrealizedPnl = 0\<rparr>)]\<rparr>) 1 100
       = Fin 0"
  by (simp add: exposureRatioOf_def totalExposureOf_def totalCollateralOf_def checkTotalExposure_def
      zeroCollateralUser_def USDC_MINT_INDEX_def js_inf_def CONFIG_def Let_def allowTrade_def
      getPositionRatio_def positionOf_def freeCollateralOf_def canQuote_def zeroMinConfig_def
      checkMarginFraction_def checkFreeCollateral_def checkMarketExposure_def)

section \<open>BacktestEngine\<close>

text \<open>
  C8. Starting from a flat position, a filled bid of positive size immediately followed by a
  filled ask of the same size at a strictly higher price credits a realized PnL of exactly
  \<open>size * (ask.fillPrice - bid.fillPrice)\<close>, which is positive, to the position and to the
  balance; the bid itself realizes nothing, and the position is flat again afterwards.
\<close>

theorem roundTrip_from_flat:
  assumes flat: "bp_size (position eng) = 0"
      and sides: "bo_side b = BtBid" "bo_side a = BtAsk"
      and sz: "bo_size a = bo_size b" "0 < bo_size b"
      and higher: "bo_price b < bo_price a"
      and e1: "eng1 = snd (fillOrder eng b bar1)"
      and e2: "eng2 = snd (fillOrder eng1 a bar2)"
  shows "fillPrice (fst (fillOrder eng b bar1)) = Some (bo_price b)
       \<and> fillPrice (fst (fillOrder eng1 a bar2)) = Some (bo_price a)
       \<and> realizedPnl (position eng1) = realizedPnl (position eng)
       \<and> balance eng1 = balance eng
       \<and> realizedPnl (position eng2) - realizedPnl (position eng1)
           = bo_size b * (bo_price a - bo_price b)
       \<and> balance eng2 - balance eng1 = bo_size b * (bo_price a - bo_price b)
       \<and> 0 < bo_size b * (bo_price a - bo_price b)
       \<and> bp_size (position eng2) = 0"
proof -
  have p1: "bp_size (position eng1) = bo_size b" "bp_entryPrice (position eng1) = bo_price b"
           "realizedPnl (position eng1) = realizedPnl (position eng)" "balance eng1 = balance eng"
    unfolding e1 fillOrder_flat_bid(1)[OF flat sides(1) sz(2)] by simp_all
  have f1: "fillPrice (fst (fillOrder eng b bar1)) = Some (bo_price b)"
    unfolding fillOrder_flat_bid(2)[OF flat sides(1) sz(2)] by simp
  note c = fillOrder_close_long[OF p1(1) sz(2) sides(2) sz(1), of bar2]
  have pos: "0 < bo_size b * (bo_price a - bo_price b)"
    using sz(2) higher by simp
  show ?thesis
    using p1 f1 c pos unfolding e2 by simp
qed

text \<open>
  A bid of 0.1 at 99.9 and an ask of 0.1 at 100.1 on a fresh engine realize
  \<open>0.1 * (100.1 - 99.9) = 0.02\<close>.
\<close>

theorem roundTrip_from_flat_witness:
  "bp_size (position (newBacktestEngine 10000)) = 0
   \<and> bo_side (bidOrder 99.9 0.1) = BtBid \<and> bo_side (askOrder 100.1 0.1) = BtAsk
   \<and> bo_size (askOrder 100.1 0.1) = bo_size (bidOrder 99.9 0.1) \<and> 0 < bo_size (bidOrder 99.9 0.1)
   \<and> bo_price (bidOrder 99.9 0.1) < bo_price (askOrder 100.1 0.1)
   \<and> realizedPnl (position (snd (fillOrder (snd (fillOrder (newBacktestEngine 10000)
                                                          (bidOrder 99.9 0.1) flatBar))
                                           (askOrder 100.1 0.1) flatBar)))
       - realizedPnl (position (snd (fillOrder (newBacktestEngine 10000) (bidOrder 99.9 0.1) flatBar)))
       = 0.02
   \<and> balance (snd (fillOrder (snd (fillOrder (newBacktestEngine 10000) (bidOrder 99.9 0.1) flatBar))
                             (askOrder 100.1 0.1) flatBar))
       - balance (snd (fillOrder (newBacktestEngine 10000) (bidOrder 99.9 0.1) flatBar))
       = 0.02"
proof -
  have flat: "bp_size (position (newBacktestEngine 10000)) = 0"
    by (simp add: newBacktestEngine_def)
  have sb: "bo_side (bidOrder 99.9 0.1) = BtBid" and sa: "bo_side (askOrder 100.1 0.1) = BtAsk"
    by (simp_all add: bidOrder_def askOrder_def)
  have sz: "bo_size (askOrder 100.1 0.1) = bo_size (bidOrder 99.9 0.1)"
    and pos: "0 < bo_size (bidOrder 99.9 0.1)"
    and higher: "bo_price (bidOrder 99.9 0.1) < bo_price (askOrder 100.1 0.1)"
    by (simp_all add: bidOrder_def askOrder_def)
  have v: "bo_size (bidOrder 99.9 0.1) * (bo_price (askOrder 100.1 0.1) - bo_price (bidOrder 99.9 0.1))
           = 0.02"
    by (simp add: bidOrder_def askOrder_def)
  note t = roundTrip_from_flat[OF flat sb sa sz pos higher refl refl, of flatBar flatBar,
                               unfolded v]
  from flat sb sa sz pos higher t show ?thesis by blast
qed

text \<open>
  From a long position of 1 entered at 100, a filled bid of 1 at 90 moves the entry price to
  95; the ask of 1 at 95 that follows realizes 0, not \<open>1 * (95 - 90) = 5\<close>.
\<close>

theorem roundTrip_counterexample:
  "bp_size (position longEngine) = 1
   \<and> bo_side (bidOrder 90 1) = BtBid \<and> bo_side (askOrder 95 1) = BtAsk
   \<and> bo_size (askOrder 95 1) = bo_size (bidOrder 90 1)
   \<and> bo_price (bidOrder 90 1) < bo_price (askOrder 95 1)
   \<and> bo_size (bidOrder 90 1) * (bo_price (askOrder 95 1) - bo_price (bidOrder 90 1)) = 5
   \<and> realizedPnl (position (snd (fillOrder (snd (fillOrder longEngine (bidOrder 90 1) flatBar))
                                           (askOrder 95 1) flatBar)))
       - realizedPnl (position (snd (fillOrder longEngine (bidOrder 90 1) flatBar))) = 0
   \<and> balance (snd (fillOrder (snd (fillOrder longEngine (bidOrder 90 1) flatBar))
                             (askOrder 95 1) flatBar))
       - balance (snd (fillOrder longEngine (bidOrder 90 1) flatBar)) = 0"
  by (simp add: fillOrder_def longEngine_def newBacktestEngine_def bidOrder_def askOrder_def Let_def)


end
